theory Spec2Isabelle
  imports Complex_Main
begin

section \<open>Strings\<close>

text \<open>
  JavaScript strings are modelled as \<^typ>\<open>string\<close>. Every keyword the code searches for
  is lower-case ASCII, so \<open>toLowerCase\<close> is modelled on the ASCII letters; other
  characters are left as they are.
\<close>

definition toLowerCase_char :: "char \<Rightarrow> char" where
  "toLowerCase_char c =
     (case map_of (zip ''ABCDEFGHIJKLMNOPQRSTUVWXYZ'' ''abcdefghijklmnopqrstuvwxyz'') c of
        None \<Rightarrow> c
      | Some l \<Rightarrow> l)"

definition toLowerCase :: "string \<Rightarrow> string" where
  "toLowerCase s = map toLowerCase_char s"

fun startsWith :: "string \<Rightarrow> string \<Rightarrow> bool" where
  "startsWith s [] = True"
| "startsWith [] (k # ks) = False"
| "startsWith (c # cs) (k # ks) = (c = k \<and> startsWith cs ks)"

text \<open>\<open>s.includes(k)\<close>: \<open>k\<close> occurs in \<open>s\<close> as a contiguous substring.\<close>

fun includes_str :: "string \<Rightarrow> string \<Rightarrow> bool" where
  "includes_str [] k = (k = [])"
| "includes_str (c # cs) k = (startsWith (c # cs) k \<or> includes_str cs k)"

text \<open>\<open>xs.join(sep)\<close>\<close>

fun join :: "string list \<Rightarrow> string \<Rightarrow> string" where
  "join [] sep = []"
| "join [x] sep = x"
| "join (x # y # ys) sep = x @ sep @ join (y # ys) sep"

section \<open>SpecialtyMatcher and FacilityRecommender\<close>

text \<open>
  The fields of \<open>Hospital\<close> (src/hooks/useHospitals.tsx) that the matching code reads.
  An optional field is an \<^typ>\<open>'a option\<close>, \<^term>\<open>None\<close> for \<open>undefined\<close>.
\<close>

record Hospital =
  organization_name :: string
  location_lat :: real
  location_lng :: real
  address :: "string option"
  specialties :: "string list option"

text \<open>
  A \<open>HospitalUpdate\<close>. Its payload \<open>update_data\<close> is an arbitrary JSON value that the
  code only reads through \<open>JSON.stringify\<close>; the record holds that serialisation.
\<close>

record HospitalUpdate =
  update_type :: string
  update_data :: string

text \<open>
  A number of the source where it may fail to be one: a finite value or \<open>NaN\<close>. The
  haversine distance of the hook (src/unnamed/part_000, lines 45-54) is double
  arithmetic through \<open>Math.sin\<close>, \<open>Math.cos\<close>, \<open>Math.sqrt\<close> and \<open>Math.atan2\<close>; rounding can
  push its term \<open>a\<close> out of \<open>[0, 1]\<close>, and then a square root, and with it the distance,
  is \<open>NaN\<close>. The other numbers of the model are reals.
\<close>

datatype number = Number real | NaN

text \<open>
  A \<open>SpecialtyMatch\<close>; its fields carry the suffix \<open>_m\<close>, which keeps the names of
  the source free for the locals of the functions below.
\<close>

record SpecialtyMatch =
  hospital_m :: Hospital
  specialties_m :: "string list"
  matchScore_m :: number
  distance_m :: number
  reason_m :: string

record SpecialtyAnalysis =
  specialties_a :: "string list"
  reasons :: "string list"

text \<open>The object literal \<open>SPECIALTY_KEYWORDS\<close>, in insertion order.\<close>

definition SPECIALTY_KEYWORDS :: "(string \<times> string list) list" where
  "SPECIALTY_KEYWORDS =
    [(''Cardiac'', [''cardiology'', ''heart'', ''cardiac'', ''cath lab'', ''cardiovascular'']),
     (''Oncology'', [''cancer'', ''oncology'', ''chemotherapy'', ''radiation'', ''tumor'']),
     (''Neuro'', [''neurology'', ''stroke'', ''brain'', ''neurological'', ''neuro'']),
     (''Trauma'', [''trauma'', ''emergency'', ''accident'', ''surgery'', ''icu'']),
     (''Maternity'', [''maternity'', ''obstetrics'', ''gynecology'', ''neonatal'', ''delivery'']),
     (''Orthopedics'', [''orthopedic'', ''bone'', ''joint'', ''fracture'', ''spine'']),
     (''Pediatric'', [''pediatric'', ''children'', ''nicu'', ''child'', ''infant'']),
     (''Respiratory'', [''pulmonary'', ''respiratory'', ''lung'', ''breathing'', ''ventilator''])]"

text \<open>
  The template string
  \<open>`${hospital.organization_name} ${hospital.address || ''}`.toLowerCase()\<close>.
\<close>

definition hospitalText :: "Hospital \<Rightarrow> string" where
  "hospitalText hospital =
     toLowerCase (organization_name hospital @ '' '' @
       (case address hospital of None \<Rightarrow> [] | Some a \<Rightarrow> a))"

text \<open>
  The two loops of \<open>analyzeSpecialties\<close> over one specialty's keywords. The state of a
  loop is the pair of the locals \<open>score\<close> and \<open>matchedKeywords\<close>.
\<close>

definition checkNameAddress :: "string \<Rightarrow> string list \<Rightarrow> nat \<times> string list \<Rightarrow> nat \<times> string list" where
  "checkNameAddress text keywords st =
     foldl (\<lambda>(score, matchedKeywords) keyword.
              if includes_str text keyword
              then (score + 2, matchedKeywords @ [keyword])
              else (score, matchedKeywords))
       st keywords"

definition checkUpdate :: "HospitalUpdate \<Rightarrow> string list \<Rightarrow> nat \<times> string list \<Rightarrow> nat \<times> string list" where
  "checkUpdate update keywords st =
     (let updateText = toLowerCase (update_data update)
      in foldl (\<lambda>(score, matchedKeywords) keyword.
                  if includes_str updateText keyword
                  then (score + 3, matchedKeywords @ [update_type update @ '': '' @ keyword])
                  else (score, matchedKeywords))
           st keywords)"

definition checkRecentUpdates :: "HospitalUpdate list \<Rightarrow> string list \<Rightarrow> nat \<times> string list \<Rightarrow> nat \<times> string list" where
  "checkRecentUpdates recentUpdates keywords st =
     foldl (\<lambda>st' update. checkUpdate update keywords st') st recentUpdates"

text \<open>The callback of \<open>Object.entries(SPECIALTY_KEYWORDS).forEach\<close>.\<close>

definition specialtyStep ::
  "Hospital \<Rightarrow> HospitalUpdate list \<Rightarrow> SpecialtyAnalysis \<Rightarrow> string \<times> string list \<Rightarrow> SpecialtyAnalysis" where
  "specialtyStep hospital recentUpdates =
     (\<lambda>acc (specialty, keywords).
        let (score, matchedKeywords) =
              checkRecentUpdates recentUpdates keywords
                (checkNameAddress (hospitalText hospital) keywords (0, []))
        in if score \<ge> 2
           then \<lparr>specialties_a = specialties_a acc @ [specialty],
                 reasons = reasons acc @ [specialty @ '': '' @ join matchedKeywords '', '']\<rparr>
           else acc)"

definition analyzeSpecialties :: "Hospital \<Rightarrow> HospitalUpdate list \<Rightarrow> SpecialtyAnalysis" where
  "analyzeSpecialties hospital recentUpdates =
     foldl (specialtyStep hospital recentUpdates)
       \<lparr>specialties_a = [], reasons = []\<rparr> SPECIALTY_KEYWORDS"

text \<open>
  The words of the specification, written without the functions of the code. Two
  characters are the same letter when they are equal or when one is an ASCII capital
  and the other the small letter 32 code points above it. A keyword occurs in a text,
  case-insensitively, when some contiguous piece of the text matches it letter by letter.
  The facility text is the name, a space and the address.
\<close>

definition isCapital :: "char \<Rightarrow> bool" where
  "isCapital c = (65 \<le> (of_char c :: nat) \<and> (of_char c :: nat) \<le> 90)"

definition sameLetter :: "char \<Rightarrow> char \<Rightarrow> bool" where
  "sameLetter c d =
     (c = d \<or> (isCapital c \<and> (of_char d :: nat) = of_char c + 32)
            \<or> (isCapital d \<and> (of_char c :: nat) = of_char d + 32))"

definition occursIgnoringCase :: "string \<Rightarrow> string \<Rightarrow> bool" where
  "occursIgnoringCase keyword t =
     (\<exists>front found back. t = front @ found @ back \<and> list_all2 sameLetter found keyword)"

definition facilityText :: "Hospital \<Rightarrow> string" where
  "facilityText hospital =
     organization_name hospital @ '' '' @ (case address hospital of None \<Rightarrow> [] | Some a \<Rightarrow> a)"

text \<open>
  The accumulated score of the specification: 2 points for each keyword that occurs in
  the facility text, 3 points for each keyword that occurs in the serialised payload of
  an update record, counted per record.
\<close>

definition accumulatedScore :: "string \<Rightarrow> string list \<Rightarrow> string list \<Rightarrow> nat" where
  "accumulatedScore t payloads keywords =
     2 * length (filter (\<lambda>k. occursIgnoringCase k t) keywords) +
     3 * sum_list (map (\<lambda>p. length (filter (\<lambda>k. occursIgnoringCase k p) keywords)) payloads)"

text \<open>
  \<open>SPECIALTY_KEYWORDS[emergencyKeyword] || []\<close>. The lookup goes through the prototype
  chain of the object literal: for a key that \<open>Object.prototype\<close> defines it yields a
  function (or, for \<open>__proto__\<close>, the prototype object), which is truthy and has no
  \<open>forEach\<close>, so the loop that follows throws a \<open>TypeError\<close>.
\<close>

datatype js_error = TypeError

definition OBJECT_PROTOTYPE_KEYS :: "string list" where
  "OBJECT_PROTOTYPE_KEYS =
    [''constructor'', ''hasOwnProperty'', ''isPrototypeOf'', ''propertyIsEnumerable'',
     ''toLocaleString'', ''toString'', ''valueOf'', ''__proto__'',
     ''__defineGetter__'', ''__defineSetter__'', ''__lookupGetter__'', ''__lookupSetter__'']"

definition relatedKeywords :: "string \<Rightarrow> js_error + string list" where
  "relatedKeywords emergencyKeyword =
     (case map_of SPECIALTY_KEYWORDS emergencyKeyword of
        Some keywords \<Rightarrow> Inr keywords
      | None \<Rightarrow>
          if emergencyKeyword \<in> set OBJECT_PROTOTYPE_KEYS then Inl TypeError else Inr [])"

text \<open>
  The specialty list a facility is scored with: the stored one, or, when that is
  missing or empty, a default chosen from the facility's name.
\<close>

definition resolveSpecialties :: "Hospital \<Rightarrow> string list" where
  "resolveSpecialties hospital =
     (let stored = (case specialties hospital of None \<Rightarrow> [] | Some s \<Rightarrow> s)
      in if length stored = 0
         then (let hospitalName = toLowerCase (organization_name hospital)
               in if includes_str hospitalName ''pgimer'' \<or> includes_str hospitalName ''aiims''
                  then [''Cardiac'', ''Neuro'', ''Trauma'', ''Oncology'', ''Pediatric'']
                  else if includes_str hospitalName ''fortis'' \<or> includes_str hospitalName ''max''
                          \<or> includes_str hospitalName ''apollo''
                  then [''Cardiac'', ''Trauma'', ''Orthopedics'', ''Maternity'']
                  else if includes_str hospitalName ''gmch'' \<or> includes_str hospitalName ''sms''
                  then [''Trauma'', ''Maternity'', ''Pediatric'']
                  else [''Trauma'', ''Cardiac''])
         else stored)"

text \<open>
  The locals \<open>matchScore\<close> and \<open>reason\<close> of the callback of \<open>hospitals.map\<close>, before the
  distance bonus is added.
\<close>

definition relatedLoop :: "string \<Rightarrow> string list \<Rightarrow> real \<times> string \<Rightarrow> real \<times> string" where
  "relatedLoop text keywords st =
     foldl (\<lambda>(matchScore, reason) keyword.
              if includes_str text keyword
              then (matchScore + 20, ''Has '' @ keyword @ '' capabilities'')
              else (matchScore, reason))
       st keywords"

definition baseScore :: "string \<Rightarrow> Hospital \<Rightarrow> js_error + real \<times> string" where
  "baseScore emergencyKeyword hospital =
     (let specialties = resolveSpecialties hospital
      in if emergencyKeyword \<in> set specialties
         then Inr (100, ''Specialized in '' @ emergencyKeyword)
         else (case relatedKeywords emergencyKeyword of
                 Inl e \<Rightarrow> Inl e
               | Inr keywords \<Rightarrow>
                   let (matchScore, reason) = relatedLoop (hospitalText hospital) keywords (0, [])
                   in if ''Trauma'' \<in> set specialties \<and> emergencyKeyword \<noteq> ''Trauma''
                      then Inr (matchScore + 10,
                                if reason = [] then ''General emergency capabilities'' else reason)
                      else Inr (matchScore, reason)))"

text \<open>\<open>Math.max(0, 50 - (distance / 1000))\<close>, which is \<open>NaN\<close> when the distance is.\<close>

definition distanceBonus :: "number \<Rightarrow> number" where
  "distanceBonus distance =
     (case distance of NaN \<Rightarrow> NaN | Number d \<Rightarrow> Number (max 0 (50 - d / 1000)))"

text \<open>\<open>matchScore += distanceScore\<close>\<close>

definition addBonus :: "real \<Rightarrow> number \<Rightarrow> number" where
  "addBonus matchScore distanceScore =
     (case distanceScore of NaN \<Rightarrow> NaN | Number b \<Rightarrow> Number (matchScore + b))"

text \<open>
  The callback of \<open>hospitals.map\<close>. Its first argument \<open>calculateDistance\<close> stands for the
  haversine function of the hook: what that function returns for given coordinates
  depends on the platform's double arithmetic and is an input of the model.
\<close>

definition scoreHospital ::
  "(real \<Rightarrow> real \<Rightarrow> real \<Rightarrow> real \<Rightarrow> number) \<Rightarrow> real \<Rightarrow> real \<Rightarrow> string \<Rightarrow> Hospital \<Rightarrow>
   js_error + SpecialtyMatch" where
  "scoreHospital calculateDistance patientLat patientLng emergencyKeyword hospital =
     (let distance = calculateDistance patientLat patientLng
                       (location_lat hospital) (location_lng hospital);
          specialties = resolveSpecialties hospital
      in case baseScore emergencyKeyword hospital of
           Inl e \<Rightarrow> Inl e
         | Inr (matchScore, reason) \<Rightarrow>
             let distanceScore = distanceBonus distance
             in Inr \<lparr>hospital_m = hospital,
                     specialties_m = specialties,
                     matchScore_m = addBonus matchScore distanceScore,
                     distance_m = distance,
                     reason_m = (if reason = [] then ''General hospital'' else reason)\<rparr>)"








text \<open>
  The number of keyword phrases of the requested specialty that occur in a facility's
  name and address text.
\<close>

definition matchedPhrases :: "string \<Rightarrow> Hospital \<Rightarrow> nat" where
  "matchedPhrases emergencyKeyword hospital =
     (case map_of SPECIALTY_KEYWORDS emergencyKeyword of
        None \<Rightarrow> 0
      | Some keywords \<Rightarrow> length (filter (includes_str (hospitalText hospital)) keywords))"


definition heartCentre :: Hospital where
  "heartCentre = \<lparr>organization_name = ''Heart Cardiology Cardiac Cath Lab Cardiovascular Centre'',
     location_lat = 30, location_lng = 76, address = None, specialties = Some [''Trauma'']\<rparr>"

definition heartClinic :: Hospital where
  "heartClinic = \<lparr>organization_name = ''Heart Clinic'',
     location_lat = 30, location_lng = 76, address = None, specialties = Some [''Trauma'']\<rparr>"

section \<open>DispatchTokenStateMachine\<close>

subsection \<open>Rows\<close>

datatype RouteType = shortest | fastest

record RouteData =
  coordinates :: "(real \<times> real) list"
  distance :: real
  duration :: real
  type :: RouteType

datatype TokenStatus =
  pending | assigned | route_selected | in_progress | at_patient | to_hospital
  | completed | cancelled | declined

text \<open>
  An \<open>EmergencyToken\<close>, field by field; \<open>id\<close> is written \<open>id_t\<close>. A nullable column is an
  \<^typ>\<open>'a option\<close>. Timestamps are the ISO strings the code writes. \<open>route_type\<close> holds the
  tag of a \<open>RouteData\<close>, the only value the code writes to it.
\<close>

record EmergencyToken =
  id_t :: string
  token_code :: string
  ambulance_id :: string
  ambulance_origin_lat :: "real option"
  ambulance_origin_lng :: "real option"
  pickup_lat :: real
  pickup_lng :: real
  pickup_address :: "string option"
  hospital_id :: "string option"
  hospital_name :: "string option"
  hospital_lat :: "real option"
  hospital_lng :: "real option"
  emergency_type :: "string option"
  medical_keyword :: "string option"
  route_to_patient :: "RouteData option"
  route_to_patient_distance_meters :: "real option"
  route_to_patient_duration_seconds :: "real option"
  arrived_at_patient_at :: "string option"
  route_to_hospital :: "RouteData option"
  route_to_hospital_distance_meters :: "real option"
  route_to_hospital_duration_seconds :: "real option"
  selected_route :: "RouteData option"
  route_type :: "RouteType option"
  route_distance_meters :: "real option"
  route_duration_seconds :: "real option"
  status :: TokenStatus
  decline_reason :: "string option"
  created_at :: string
  assigned_at :: "string option"
  started_at :: "string option"
  completed_at :: "string option"

datatype EmergencyStatus = inactive | active | responding

text \<open>The two columns of an \<open>ambulances\<close> row that the token hook writes.\<close>

record Ambulance =
  active_token_id :: "string option"
  emergency_status :: EmergencyStatus

subsection \<open>The caller and the store\<close>

datatype UserRole = ambulance_role | hospital_role | admin_role

text \<open>
  What \<open>useAuth()\<close> gives the hook: the id of the signed-in user (\<open>user?.id\<close>) and the role
  of the loaded profile (\<open>profile?.role\<close>), each of which may be missing.
\<close>

record AuthState =
  user :: "string option"
  profile :: "UserRole option"

definition isAmbulanceDriver :: "AuthState \<Rightarrow> bool" where
  "isAmbulanceDriver auth = (profile auth = Some ambulance_role)"

definition isHospitalUser :: "AuthState \<Rightarrow> bool" where
  "isHospitalUser auth = (profile auth = Some hospital_role)"

text \<open>
  The state the hook acts on: the two tables of the store, each a map from the primary
  key \<open>id\<close> to the row, and the hook's own React state \<open>tokens\<close> and \<open>activeToken\<close>.
\<close>

record World =
  emergency_tokens :: "string \<rightharpoonup> EmergencyToken"
  ambulances :: "string \<rightharpoonup> Ambulance"
  tokens :: "EmergencyToken list"
  activeToken :: "EmergencyToken option"

text \<open>
  How the store answers one write request. The store is outside the repository; its
  answer is an input of the model.
  \<^item> \<open>Applied\<close>: the statement runs on the rows that match its filter.
  \<^item> \<open>ZeroRows\<close>: row-level security hides the rows; nothing changes and no error is
    reported.
  \<^item> \<open>Rejected\<close>: the store reports an error; nothing changes.
  supabase-js returns an error in the result object and does not throw.
\<close>

datatype Reply = Applied | ZeroRows | Rejected

text \<open>A result object: the flag \<open>error\<close> and the rows the statement returns.\<close>

type_synonym 'row response = "bool \<times> 'row list"

text \<open>\<open>supabase.from('emergency_tokens').update(values).eq('id', tokenId)\<close>\<close>

definition update_token ::
  "Reply \<Rightarrow> string \<Rightarrow> (EmergencyToken \<Rightarrow> EmergencyToken) \<Rightarrow> World \<Rightarrow> EmergencyToken response \<times> World" where
  "update_token reply tokenId values w =
     (case reply of
        Rejected \<Rightarrow> ((True, []), w)
      | ZeroRows \<Rightarrow> ((False, []), w)
      | Applied \<Rightarrow>
          (case emergency_tokens w tokenId of
             None \<Rightarrow> ((False, []), w)
           | Some row \<Rightarrow>
               ((False, [values row]),
                w\<lparr>emergency_tokens := (emergency_tokens w)(tokenId \<mapsto> values row)\<rparr>)))"

text \<open>\<open>supabase.from('ambulances').update(values).eq('id', ambulanceId)\<close>\<close>

definition update_ambulance ::
  "Reply \<Rightarrow> string \<Rightarrow> (Ambulance \<Rightarrow> Ambulance) \<Rightarrow> World \<Rightarrow> Ambulance response \<times> World" where
  "update_ambulance reply ambulanceId values w =
     (case reply of
        Rejected \<Rightarrow> ((True, []), w)
      | ZeroRows \<Rightarrow> ((False, []), w)
      | Applied \<Rightarrow>
          (case ambulances w ambulanceId of
             None \<Rightarrow> ((False, []), w)
           | Some row \<Rightarrow>
               ((False, [values row]),
                w\<lparr>ambulances := (ambulances w)(ambulanceId \<mapsto> values row)\<rparr>)))"

text \<open>
  \<open>supabase.from('emergency_tokens').insert(row)\<close>: the row is stored under its primary
  key; a key that is already taken, and any answer other than \<open>Applied\<close>, is an error.
\<close>

definition insert_token :: "Reply \<Rightarrow> EmergencyToken \<Rightarrow> World \<Rightarrow> EmergencyToken response \<times> World" where
  "insert_token reply row w =
     (if reply = Applied \<and> emergency_tokens w (id_t row) = None
      then ((False, [row]), w\<lparr>emergency_tokens := (emergency_tokens w)(id_t row \<mapsto> row)\<rparr>)
      else ((True, []), w))"

text \<open>
  \<open>.select().single()\<close>: \<open>data\<close> is the row when exactly one row comes back; otherwise
  \<open>data\<close> is \<open>null\<close> and \<open>error\<close> is set.
\<close>

definition single :: "'row response \<Rightarrow> bool \<times> 'row option" where
  "single r = (case r of (False, [row]) \<Rightarrow> (False, Some row) | _ \<Rightarrow> (True, None))"

text \<open>The columns the store fills in on insert.\<close>

record Generated =
  gen_id :: string
  gen_token_code :: string
  gen_created_at :: string

text \<open>A new row with the column defaults of the table: every nullable column \<open>null\<close>, status \<open>pending\<close>.\<close>

definition defaultRow :: "Generated \<Rightarrow> string \<Rightarrow> real \<Rightarrow> real \<Rightarrow> EmergencyToken" where
  "defaultRow g ambulanceId pickupLat pickupLng =
     \<lparr>id_t = gen_id g, token_code = gen_token_code g, ambulance_id = ambulanceId,
      ambulance_origin_lat = None, ambulance_origin_lng = None,
      pickup_lat = pickupLat, pickup_lng = pickupLng, pickup_address = None,
      hospital_id = None, hospital_name = None, hospital_lat = None, hospital_lng = None,
      emergency_type = None, medical_keyword = None,
      route_to_patient = None, route_to_patient_distance_meters = None,
      route_to_patient_duration_seconds = None, arrived_at_patient_at = None,
      route_to_hospital = None, route_to_hospital_distance_meters = None,
      route_to_hospital_duration_seconds = None,
      selected_route = None, route_type = None, route_distance_meters = None,
      route_duration_seconds = None,
      status = pending, decline_reason = None, created_at = gen_created_at g,
      assigned_at = None, started_at = None, completed_at = None\<rparr>"

subsection \<open>Helpers of the hook\<close>

definition ACTIVE_TOKEN_STATUSES :: "TokenStatus list" where
  "ACTIVE_TOKEN_STATUSES = [pending, assigned, route_selected, in_progress, at_patient, to_hospital]"

definition findActiveToken :: "EmergencyToken list \<Rightarrow> EmergencyToken option" where
  "findActiveToken list = find (\<lambda>t. status t \<in> set ACTIVE_TOKEN_STATUSES) list"

text \<open>
  The \<open>setTokens\<close> updater after a write that returned the row \<open>updated\<close>: the row
  replaces the entry with its id, and \<open>activeToken\<close> is recomputed.
\<close>

definition replaceToken :: "EmergencyToken \<Rightarrow> World \<Rightarrow> World" where
  "replaceToken updated w =
     (let next = map (\<lambda>t. if id_t t = id_t updated then updated else t) (tokens w)
      in w\<lparr>tokens := next, activeToken := findActiveToken next\<rparr>)"

text \<open>\<open>x || null\<close> for an optional string and for an optional number.\<close>

definition orNull_string :: "string option \<Rightarrow> string option" where
  "orNull_string x = (case x of None \<Rightarrow> None | Some v \<Rightarrow> if v = [] then None else Some v)"

definition orNull_number :: "real option \<Rightarrow> real option" where
  "orNull_number x = (case x of None \<Rightarrow> None | Some v \<Rightarrow> if v = 0 then None else Some v)"

text \<open>
  The regular expression of \<open>isUuid\<close>, with flag \<open>i\<close>:
  \<open>^[0-9a-f]{8}-[0-9a-f]{4}-[1-5][0-9a-f]{3}-[89ab][0-9a-f]{3}-[0-9a-f]{12}$\<close>
\<close>

definition isHexDigit :: "char \<Rightarrow> bool" where
  "isHexDigit c = (c \<in> set ''0123456789abcdefABCDEF'')"

definition isUuid :: "string \<Rightarrow> bool" where
  "isUuid v =
     (length v = 36 \<and>
      list_all isHexDigit (take 8 v) \<and> v ! 8 = CHR ''-'' \<and>
      list_all isHexDigit (take 4 (drop 9 v)) \<and> v ! 13 = CHR ''-'' \<and>
      v ! 14 \<in> set ''12345'' \<and> list_all isHexDigit (take 3 (drop 15 v)) \<and> v ! 18 = CHR ''-'' \<and>
      v ! 19 \<in> set ''89abAB'' \<and> list_all isHexDigit (take 3 (drop 20 v)) \<and> v ! 23 = CHR ''-'' \<and>
      list_all isHexDigit (drop 24 v))"

subsection \<open>Operations of the hook\<close>

text \<open>
  Each operation takes the caller, the answers of the store to the writes it issues (in
  program order), the values that come from outside (the clock, the generated columns),
  its own arguments and the state; it returns its result and the new state.
  \<open>JSON.parse(JSON.stringify(route))\<close> copies a \<open>RouteData\<close> and is the identity on values.
\<close>

definition createToken ::
  "AuthState \<Rightarrow> Reply \<Rightarrow> Reply \<Rightarrow> Generated \<Rightarrow> string \<Rightarrow> real \<Rightarrow> real \<Rightarrow> string option \<Rightarrow>
   real option \<Rightarrow> real option \<Rightarrow> World \<Rightarrow> EmergencyToken option \<times> World" where
  "createToken auth insertReply linkReply g ambulanceId pickupLat pickupLng pickupAddress
     ambulanceOriginLat ambulanceOriginLng w =
     (if \<not> isAmbulanceDriver auth then (None, w)
      else
        (case insert_token insertReply
                ((defaultRow g ambulanceId pickupLat pickupLng)
                   \<lparr>pickup_address := orNull_string pickupAddress,
                    ambulance_origin_lat := orNull_number ambulanceOriginLat,
                    ambulance_origin_lng := orNull_number ambulanceOriginLng,
                    status := pending\<rparr>) w of
           (r, w1) \<Rightarrow>
             (case single r of
                (False, Some data) \<Rightarrow>
                  (case update_ambulance linkReply ambulanceId
                          (\<lambda>a. a\<lparr>active_token_id := Some (id_t data), emergency_status := active\<rparr>) w1 of
                     (_, w2) \<Rightarrow> (Some data, w2))
              | _ \<Rightarrow> (None, w1))))"

text \<open>\<open>isUuid(hospitalId) ? hospitalId : user?.id ?? null\<close>\<close>

definition resolvedHospitalId :: "AuthState \<Rightarrow> string \<Rightarrow> string option" where
  "resolvedHospitalId auth hospitalId = (if isUuid hospitalId then Some hospitalId else user auth)"

text \<open>The object \<open>insertData\<close> of \<open>createHospitalEmergency\<close>, on top of the column defaults.\<close>

definition insertData ::
  "AuthState \<Rightarrow> string \<Rightarrow> Generated \<Rightarrow> string \<Rightarrow> real \<Rightarrow> real \<Rightarrow> real \<Rightarrow> real \<Rightarrow> string option \<Rightarrow>
   string \<Rightarrow> string \<Rightarrow> real \<Rightarrow> real \<Rightarrow> RouteData \<Rightarrow> RouteData \<Rightarrow> string option \<Rightarrow> string option \<Rightarrow>
   EmergencyToken" where
  "insertData auth now g ambulanceId ambulanceLat ambulanceLng pickupLat pickupLng pickupAddress
     hospitalId hospitalName hospitalLat hospitalLng routeToPatient routeToHospital
     emergencyType medicalKeyword =
     (defaultRow g ambulanceId pickupLat pickupLng)
       \<lparr>pickup_address := orNull_string pickupAddress,
        ambulance_origin_lat := Some ambulanceLat,
        ambulance_origin_lng := Some ambulanceLng,
        hospital_id := resolvedHospitalId auth hospitalId,
        hospital_name := Some hospitalName,
        hospital_lat := Some hospitalLat,
        hospital_lng := Some hospitalLng,
        route_to_patient := Some routeToPatient,
        route_to_patient_distance_meters := Some (distance routeToPatient),
        route_to_patient_duration_seconds := Some (duration routeToPatient),
        route_to_hospital := Some routeToHospital,
        route_to_hospital_distance_meters := Some (distance routeToHospital),
        route_to_hospital_duration_seconds := Some (duration routeToHospital),
        selected_route := Some routeToPatient,
        route_type := Some (type routeToPatient),
        route_distance_meters := Some (distance routeToPatient + distance routeToHospital),
        route_duration_seconds := Some (duration routeToPatient + duration routeToHospital),
        status := route_selected,
        assigned_at := Some now,
        emergency_type := orNull_string emergencyType,
        medical_keyword := orNull_string medicalKeyword\<rparr>"

definition createHospitalEmergency ::
  "AuthState \<Rightarrow> Reply \<Rightarrow> Reply \<Rightarrow> string \<Rightarrow> Generated \<Rightarrow> string \<Rightarrow> real \<Rightarrow> real \<Rightarrow> real \<Rightarrow> real \<Rightarrow>
   string option \<Rightarrow> string \<Rightarrow> string \<Rightarrow> real \<Rightarrow> real \<Rightarrow> RouteData \<Rightarrow> RouteData \<Rightarrow>
   string option \<Rightarrow> string option \<Rightarrow> World \<Rightarrow> EmergencyToken option \<times> World" where
  "createHospitalEmergency auth insertReply linkReply now g ambulanceId ambulanceLat ambulanceLng
     pickupLat pickupLng pickupAddress hospitalId hospitalName hospitalLat hospitalLng
     routeToPatient routeToHospital emergencyType medicalKeyword w =
     (if \<not> isHospitalUser auth then (None, w)
      else
        (case insert_token insertReply
                (insertData auth now g ambulanceId ambulanceLat ambulanceLng pickupLat pickupLng
                   pickupAddress hospitalId hospitalName hospitalLat hospitalLng
                   routeToPatient routeToHospital emergencyType medicalKeyword) w of
           (r, w1) \<Rightarrow>
             (case single r of
                (False, Some data) \<Rightarrow>
                  (case update_ambulance linkReply ambulanceId
                          (\<lambda>a. a\<lparr>active_token_id := Some (id_t data), emergency_status := active\<rparr>) w1 of
                     (_, w2) \<Rightarrow> (Some data, w2))
              | _ \<Rightarrow> (None, w1))))"

text \<open>The values \<open>assignHospitalWithRoutes\<close> writes to the row.\<close>

definition assignValues ::
  "string \<Rightarrow> string \<Rightarrow> string \<Rightarrow> real \<Rightarrow> real \<Rightarrow> RouteData \<Rightarrow> RouteData \<Rightarrow> EmergencyToken \<Rightarrow> EmergencyToken" where
  "assignValues now resolvedId hospitalName hospitalLat hospitalLng routeToPatient routeToHospital row =
     row\<lparr>hospital_id := Some resolvedId,
         hospital_name := Some hospitalName,
         hospital_lat := Some hospitalLat,
         hospital_lng := Some hospitalLng,
         route_to_patient := Some routeToPatient,
         route_to_patient_distance_meters := Some (distance routeToPatient),
         route_to_patient_duration_seconds := Some (duration routeToPatient),
         route_to_hospital := Some routeToHospital,
         route_to_hospital_distance_meters := Some (distance routeToHospital),
         route_to_hospital_duration_seconds := Some (duration routeToHospital),
         selected_route := Some routeToPatient,
         route_type := Some (type routeToPatient),
         route_distance_meters := Some (distance routeToPatient + distance routeToHospital),
         route_duration_seconds := Some (duration routeToPatient + duration routeToHospital),
         status := route_selected,
         assigned_at := Some now\<rparr>"

definition assignHospitalWithRoutes ::
  "AuthState \<Rightarrow> Reply \<Rightarrow> string \<Rightarrow> string \<Rightarrow> string \<Rightarrow> string \<Rightarrow> real \<Rightarrow> real \<Rightarrow>
   RouteData \<Rightarrow> RouteData \<Rightarrow> World \<Rightarrow> bool \<times> World" where
  "assignHospitalWithRoutes auth reply now tokenId hospitalId hospitalName hospitalLat hospitalLng
     routeToPatient routeToHospital w =
     (case user auth of
        None \<Rightarrow> (False, w)
      | Some uid \<Rightarrow>
          (let resolvedId = (if isUuid hospitalId then hospitalId else uid)
           in case update_token reply tokenId
                     (assignValues now resolvedId hospitalName hospitalLat hospitalLng
                        routeToPatient routeToHospital) w of
                (r, w1) \<Rightarrow>
                  (case single r of
                     (False, Some data) \<Rightarrow> (True, replaceToken data w1)
                   | _ \<Rightarrow> (False, w1))))"

definition startJourney :: "Reply \<Rightarrow> string \<Rightarrow> string \<Rightarrow> World \<Rightarrow> bool \<times> World" where
  "startJourney reply now tokenId w =
     (case update_token reply tokenId (\<lambda>row. row\<lparr>status := in_progress, started_at := Some now\<rparr>) w of
        ((error, _), w1) \<Rightarrow> if error then (False, w1) else (True, w1))"

definition arrivedAtPatient :: "Reply \<Rightarrow> string \<Rightarrow> string \<Rightarrow> World \<Rightarrow> bool \<times> World" where
  "arrivedAtPatient reply now tokenId w =
     (case update_token reply tokenId
             (\<lambda>row. row\<lparr>status := at_patient, arrived_at_patient_at := Some now\<rparr>) w of
        ((error, _), w1) \<Rightarrow> if error then (False, w1) else (True, w1))"

definition startToHospital :: "Reply \<Rightarrow> string \<Rightarrow> World \<Rightarrow> bool \<times> World" where
  "startToHospital reply tokenId w =
     (case update_token reply tokenId (\<lambda>row. row\<lparr>status := to_hospital\<rparr>) w of
        ((error, _), w1) \<Rightarrow> if error then (False, w1) else (True, w1))"

text \<open>
  \<open>completeEmergency\<close> and \<open>cancelEmergency\<close> await both writes and read neither result;
  as no write throws, the \<open>catch\<close> branch is never taken.
\<close>

definition completeEmergency :: "Reply \<Rightarrow> Reply \<Rightarrow> string \<Rightarrow> string \<Rightarrow> string \<Rightarrow> World \<Rightarrow> bool \<times> World" where
  "completeEmergency tokenReply ambulanceReply now tokenId ambulanceId w =
     (case update_token tokenReply tokenId
             (\<lambda>row. row\<lparr>status := completed, completed_at := Some now\<rparr>) w of
        (_, w1) \<Rightarrow>
          (case update_ambulance ambulanceReply ambulanceId
                  (\<lambda>a. a\<lparr>active_token_id := None, emergency_status := inactive\<rparr>) w1 of
             (_, w2) \<Rightarrow> (True, w2\<lparr>activeToken := None\<rparr>)))"

definition cancelEmergency :: "Reply \<Rightarrow> Reply \<Rightarrow> string \<Rightarrow> string \<Rightarrow> World \<Rightarrow> bool \<times> World" where
  "cancelEmergency tokenReply ambulanceReply tokenId ambulanceId w =
     (case update_token tokenReply tokenId (\<lambda>row. row\<lparr>status := cancelled\<rparr>) w of
        (_, w1) \<Rightarrow>
          (case update_ambulance ambulanceReply ambulanceId
                  (\<lambda>a. a\<lparr>active_token_id := None, emergency_status := inactive\<rparr>) w1 of
             (_, w2) \<Rightarrow> (True, w2\<lparr>activeToken := None\<rparr>)))"

definition declineEmergency :: "AuthState \<Rightarrow> Reply \<Rightarrow> string \<Rightarrow> string \<Rightarrow> World \<Rightarrow> bool \<times> World" where
  "declineEmergency auth reply tokenId reason w =
     (case user auth of
        None \<Rightarrow> (False, w)
      | Some uid \<Rightarrow>
          if \<not> isHospitalUser auth then (False, w)
          else
            (case update_token reply tokenId
                    (\<lambda>row. row\<lparr>status := declined, decline_reason := Some reason,
                               hospital_id := Some uid\<rparr>) w of
               (r, w1) \<Rightarrow>
                 (case single r of
                    (False, Some data) \<Rightarrow> (True, replaceToken data w1)
                  | _ \<Rightarrow> (False, w1))))"

subsection \<open>Example data\<close>

text \<open>
  A pending token \<open>T1\<close> of ambulance \<open>A1\<close>, the same token on its way to the hospital, a
  signed-in hospital user, a caller with a hospital profile and no user, two route legs
  and the generated columns of a second token.
\<close>

definition pendingToken :: EmergencyToken where
  "pendingToken =
     defaultRow \<lparr>gen_id = ''T1'', gen_token_code = ''ab12cd34'',
                 gen_created_at = ''2025-01-01T10:00:00.000Z''\<rparr> ''A1'' 30 76"

definition pendingWorld :: World where
  "pendingWorld =
     \<lparr>emergency_tokens = [''T1'' \<mapsto> pendingToken],
      ambulances = [''A1'' \<mapsto> \<lparr>active_token_id = Some ''T1'', emergency_status = active\<rparr>],
      tokens = [pendingToken],
      activeToken = Some pendingToken\<rparr>"

definition hospitalUser :: AuthState where
  "hospitalUser = \<lparr>user = Some ''U7'', profile = Some hospital_role\<rparr>"


definition routeA :: RouteData where
  "routeA = \<lparr>coordinates = [(30, 76), (31, 77)], distance = 1000, duration = 120, type = fastest\<rparr>"

definition routeB :: RouteData where
  "routeB = \<lparr>coordinates = [(31, 77), (32, 78)], distance = 2500, duration = 300, type = shortest\<rparr>"

definition toHospitalWorld :: World where
  "toHospitalWorld =
     \<lparr>emergency_tokens = [''T1'' \<mapsto> pendingToken\<lparr>status := to_hospital\<rparr>],
      ambulances = [''A1'' \<mapsto> \<lparr>active_token_id = Some ''T1'', emergency_status = active\<rparr>],
      tokens = [pendingToken\<lparr>status := to_hospital\<rparr>],
      activeToken = Some (pendingToken\<lparr>status := to_hospital\<rparr>)\<rparr>"

definition generatedT2 :: Generated where
  "generatedT2 = \<lparr>gen_id = ''T2'', gen_token_code = ''ef56ab78'',
                   gen_created_at = ''2025-01-01T10:10:00.000Z''\<rparr>"

section \<open>CapacitySimulator\<close>

text \<open>
  The class \<open>HospitalCapacityEngine\<close> (src/unnamed/part_007). Its counters are integers;
  \<open>occupancy_percentage\<close> is \<^term>\<open>None\<close> when the quotient it rounds is not a finite
  number (\<open>total_beds\<close> is 0). \<open>Math.random()\<close> is an input: each call site takes one
  draw, a real number that the environment promises to lie in \<open>[0, 1)\<close>.
  The engine's \<open>localStorage\<close> copy and its timer are not modelled.
\<close>

record HospitalCapacity =
  total_beds :: int
  available_beds :: int
  icu_beds :: int
  icu_available :: int
  occupied_beds :: int
  incoming_ambulances :: int
  occupancy_percentage :: "int option"

text \<open>The type \<open>'government' | 'private_super' | 'private'\<close>; \<open>private\<close> is written \<open>private_t\<close>.\<close>

datatype HospitalType = government | private_super | private_t

text \<open>\<open>Math.round\<close>: the nearest integer, a tie going up.\<close>

definition Math_round :: "real \<Rightarrow> int" where
  "Math_round x = \<lfloor>x + 1 / 2\<rfloor>"

definition occupancy :: "int \<Rightarrow> int \<Rightarrow> int option" where
  "occupancy occupied capacity =
     (if capacity = 0 then None
      else Some (Math_round ((real_of_int occupied / real_of_int capacity) * 100)))"

definition getHospitalType :: "string \<Rightarrow> HospitalType" where
  "getHospitalType hospitalName =
     (let name = toLowerCase hospitalName
      in if includes_str name ''government'' \<or> includes_str name ''civil'' \<or> includes_str name ''district''
         then government
         else if includes_str name ''super'' \<or> includes_str name ''max'' \<or> includes_str name ''apollo''
                 \<or> includes_str name ''fortis''
         then private_super
         else private_t)"

text \<open>The draws of \<open>initializeHospitalCapacity\<close>, in the order of its calls of \<open>Math.random()\<close>.\<close>

record InitDraws =
  draw_total :: real
  draw_icu :: real
  draw_occupied :: real
  draw_occupied_icu :: real
  draw_incoming :: real
  draw_incoming_count :: real

text \<open>The draws of one \<open>updateHospitalCapacity\<close>.\<close>

record TickDraws =
  draw_bed :: real
  draw_icu_change :: real
  draw_ambulance :: real

definition unit_draw :: "real \<Rightarrow> bool" where
  "unit_draw r = (0 \<le> r \<and> r < 1)"

definition valid_init :: "InitDraws \<Rightarrow> bool" where
  "valid_init d =
     (unit_draw (draw_total d) \<and> unit_draw (draw_icu d) \<and> unit_draw (draw_occupied d) \<and>
      unit_draw (draw_occupied_icu d) \<and> unit_draw (draw_incoming d) \<and>
      unit_draw (draw_incoming_count d))"

text \<open>\<open>capacityMap\<close>: a \<open>Map\<close>, kept in insertion order. \<open>Map_set\<close> is \<open>capacityMap.set\<close>.\<close>

type_synonym capacityMap = "(string \<times> HospitalCapacity) list"

fun Map_set :: "string \<Rightarrow> HospitalCapacity \<Rightarrow> capacityMap \<Rightarrow> capacityMap" where
  "Map_set k v [] = [(k, v)]"
| "Map_set k v ((k', v') # m) = (if k' = k then (k, v) # m else (k', v') # Map_set k v m)"

definition initialCapacity :: "InitDraws \<Rightarrow> string \<Rightarrow> HospitalCapacity" where
  "initialCapacity d hospitalName =
     (let (total_beds, icu_beds) =
            (case getHospitalType hospitalName of
               government \<Rightarrow> (\<lfloor>draw_total d * 100\<rfloor> + 200, \<lfloor>draw_icu d * 20\<rfloor> + 30)
             | private_super \<Rightarrow> (\<lfloor>draw_total d * 150\<rfloor> + 150, \<lfloor>draw_icu d * 25\<rfloor> + 25)
             | private_t \<Rightarrow> (\<lfloor>draw_total d * 80\<rfloor> + 50, \<lfloor>draw_icu d * 15\<rfloor> + 10));
          occupied_beds = \<lfloor>real_of_int total_beds * (0.4 + draw_occupied d * 0.4)\<rfloor>;
          occupied_icu = \<lfloor>real_of_int icu_beds * (0.3 + draw_occupied_icu d * 0.5)\<rfloor>
      in \<lparr>total_beds = total_beds,
          available_beds = total_beds - occupied_beds,
          icu_beds = icu_beds,
          icu_available = icu_beds - occupied_icu,
          occupied_beds = occupied_beds,
          incoming_ambulances =
            (if draw_incoming d > 0.7 then \<lfloor>draw_incoming_count d * 3\<rfloor> + 1 else 0),
          occupancy_percentage = occupancy occupied_beds total_beds\<rparr>)"

definition initializeHospitalCapacity ::
  "InitDraws \<Rightarrow> string \<Rightarrow> string \<Rightarrow> capacityMap \<Rightarrow> HospitalCapacity \<times> capacityMap" where
  "initializeHospitalCapacity d hospitalId hospitalName capacityMap =
     (let capacity = initialCapacity d hospitalName
      in (capacity, Map_set hospitalId capacity capacityMap))"

definition updatedCapacity :: "TickDraws \<Rightarrow> HospitalCapacity \<Rightarrow> HospitalCapacity" where
  "updatedCapacity d current =
     (let bedChange = \<lfloor>draw_bed d * 7\<rfloor> - 3;
          newAvailableBeds = max 0 (min (total_beds current) (available_beds current + bedChange));
          icuChange = \<lfloor>draw_icu_change d * 3\<rfloor> - 1;
          newIcuAvailable = max 0 (min (icu_beds current) (icu_available current + icuChange));
          ambulanceChange = \<lfloor>draw_ambulance d * 3\<rfloor> - 1;
          newIncomingAmbulances = max 0 (incoming_ambulances current + ambulanceChange);
          occupied_beds = total_beds current - newAvailableBeds
      in current\<lparr>available_beds := newAvailableBeds,
                 icu_available := newIcuAvailable,
                 occupied_beds := occupied_beds,
                 incoming_ambulances := newIncomingAmbulances,
                 occupancy_percentage := occupancy occupied_beds (total_beds current)\<rparr>)"

definition updateHospitalCapacity :: "TickDraws \<Rightarrow> string \<Rightarrow> capacityMap \<Rightarrow> capacityMap" where
  "updateHospitalCapacity d hospitalId capacityMap =
     (case map_of capacityMap hospitalId of
        None \<Rightarrow> capacityMap
      | Some current \<Rightarrow> Map_set hospitalId (updatedCapacity d current) capacityMap)"

text \<open>
  The timer callback of \<open>startSimulation\<close>: \<open>capacityMap.forEach\<close> calls
  \<open>updateHospitalCapacity\<close> for every key, in order; \<open>draws\<close> gives the draws of each call.
\<close>

definition simulationTick :: "(string \<Rightarrow> TickDraws) \<Rightarrow> capacityMap \<Rightarrow> capacityMap" where
  "simulationTick draws capacityMap =
     foldl (\<lambda>m hospitalId. updateHospitalCapacity (draws hospitalId) hospitalId m)
       capacityMap (map fst capacityMap)"

definition getCapacity ::
  "InitDraws \<Rightarrow> string \<Rightarrow> string \<Rightarrow> capacityMap \<Rightarrow> HospitalCapacity \<times> capacityMap" where
  "getCapacity d hospitalId hospitalName capacityMap =
     (case map_of capacityMap hospitalId of
        None \<Rightarrow> initializeHospitalCapacity d hospitalId hospitalName capacityMap
      | Some capacity \<Rightarrow> (capacity, capacityMap))"

text \<open>What happens to an engine: a call of \<open>getCapacity\<close>, or the timer firing.\<close>

datatype EngineEvent =
  GetCapacity string string InitDraws
| Tick "string \<Rightarrow> TickDraws"

fun engineStep :: "capacityMap \<Rightarrow> EngineEvent \<Rightarrow> capacityMap" where
  "engineStep m (GetCapacity hospitalId hospitalName d) = snd (getCapacity d hospitalId hospitalName m)"
| "engineStep m (Tick draws) = simulationTick draws m"

text \<open>The engine after a sequence of events, started with an empty \<open>capacityMap\<close>.\<close>

definition engineRun :: "EngineEvent list \<Rightarrow> capacityMap" where
  "engineRun events = foldl engineStep [] events"

fun valid_event :: "EngineEvent \<Rightarrow> bool" where
  "valid_event (GetCapacity hospitalId hospitalName d) = valid_init d"
| "valid_event (Tick draws) = True"

text \<open>The bounds of the specification, with the derived \<open>occupied_beds\<close>.\<close>

definition capacity_bounds :: "HospitalCapacity \<Rightarrow> bool" where
  "capacity_bounds c =
     (0 \<le> available_beds c \<and> available_beds c \<le> total_beds c \<and>
      0 \<le> icu_available c \<and> icu_available c \<le> icu_beds c \<and>
      0 \<le> incoming_ambulances c \<and>
      occupied_beds c = total_beds c - available_beds c)"

text \<open>All records of a \<open>capacityMap\<close> are within the bounds.\<close>

definition all_bounded :: "capacityMap \<Rightarrow> bool" where
  "all_bounded m = list_all (\<lambda>(hospitalId, c). capacity_bounds c) m"

text \<open>Draws for the examples below.\<close>

definition exampleInit :: InitDraws where
  "exampleInit = \<lparr>draw_total = 1/2, draw_icu = 1/2, draw_occupied = 1/2, draw_occupied_icu = 1/2,
     draw_incoming = 1/2, draw_incoming_count = 1/2\<rparr>"

definition exampleTick :: TickDraws where
  "exampleTick = \<lparr>draw_bed = 9/10, draw_icu_change = 9/10, draw_ambulance = 0\<rparr>"

section \<open>Theorems: specialty inference\<close>

subsection \<open>Lower-casing and substring search against case-insensitive occurrence\<close>

lemma toLowerCase_char_cases:
  "\<forall>c. toLowerCase_char c = (if isCapital c then char_of ((of_char c :: nat) + 32) else c)"
  by code_simp

lemma toLowerCase_char_sameLetter:
  assumes "\<not> isCapital d"
  shows "toLowerCase_char c = d \<longleftrightarrow> sameLetter c d"
proof (cases "isCapital c")
  case True
  then have r: "(of_char c :: nat) + 32 < 256" by (simp add: isCapital_def)
  have l: "toLowerCase_char c = char_of ((of_char c :: nat) + 32)"
    using toLowerCase_char_cases True by simp
  have "char_of ((of_char c :: nat) + 32) = d \<longleftrightarrow> (of_char d :: nat) = of_char c + 32"
  proof
    assume "char_of ((of_char c :: nat) + 32) = d"
    then have "(of_char d :: nat) = of_char (char_of ((of_char c :: nat) + 32))" by simp
    also have "\<dots> = ((of_char c :: nat) + 32) mod 256" by (rule of_char_of)
    finally show "(of_char d :: nat) = of_char c + 32" using r by simp
  next
    assume "(of_char d :: nat) = of_char c + 32"
    then have "char_of ((of_char c :: nat) + 32) = char_of (of_char d :: nat)" by simp
    then show "char_of ((of_char c :: nat) + 32) = d" by simp
  qed
  moreover have "c \<noteq> d" using True assms by auto
  ultimately show ?thesis using True assms l by (simp add: sameLetter_def)
next
  case False
  then have "toLowerCase_char c = c" using toLowerCase_char_cases by simp
  then show ?thesis using False assms by (auto simp: sameLetter_def)
qed

lemma startsWith_iff: "startsWith s k \<longleftrightarrow> (\<exists>rest. s = k @ rest)"
  by (induction s k rule: startsWith.induct) auto

lemma includes_str_iff: "includes_str s k \<longleftrightarrow> (\<exists>front bk. s = front @ k @ bk)"
proof (induction s)
  case Nil
  show ?case by auto
next
  case (Cons c cs)
  show ?case
  proof
    assume "includes_str (c # cs) k"
    then consider "startsWith (c # cs) k" | "includes_str cs k" by auto
    then show "\<exists>front bk. c # cs = front @ k @ bk"
    proof cases
      case 1
      then obtain rest where "c # cs = k @ rest" by (auto simp: startsWith_iff)
      then have "c # cs = [] @ k @ rest" by simp
      then show ?thesis by blast
    next
      case 2
      then obtain front bk where "cs = front @ k @ bk" using Cons.IH by blast
      then have "c # cs = (c # front) @ k @ bk" by simp
      then show ?thesis by blast
    qed
  next
    assume "\<exists>front bk. c # cs = front @ k @ bk"
    then obtain front bk where e: "c # cs = front @ k @ bk" by blast
    show "includes_str (c # cs) k"
    proof (cases front)
      case Nil
      with e have "startsWith (c # cs) k" by (auto simp: startsWith_iff)
      then show ?thesis by simp
    next
      case (Cons f fs)
      with e have "cs = fs @ k @ bk" by simp
      then have "includes_str cs k" using Cons.IH by blast
      then show ?thesis by simp
    qed
  qed
qed

lemma map_lower_eq_iff:
  assumes "list_all (\<lambda>d. \<not> isCapital d) k"
  shows "map toLowerCase_char found = k \<longleftrightarrow> list_all2 sameLetter found k"
  using assms
proof (induction found arbitrary: k)
  case Nil
  show ?case by auto
next
  case (Cons c cs)
  show ?case
  proof (cases k)
    case Nil
    then show ?thesis by simp
  next
    case (Cons d ds)
    with Cons.prems have d: "\<not> isCapital d" and ds: "list_all (\<lambda>d. \<not> isCapital d) ds" by simp_all
    show ?thesis
      using Cons.IH [OF ds] toLowerCase_char_sameLetter [OF d, of c] Cons by simp
  qed
qed

lemma includes_lower_iff:
  assumes "list_all (\<lambda>d. \<not> isCapital d) k"
  shows "includes_str (toLowerCase t) k \<longleftrightarrow> occursIgnoringCase k t"
proof
  assume "includes_str (toLowerCase t) k"
  then obtain front bk where "map toLowerCase_char t = front @ (k @ bk)"
    by (auto simp: includes_str_iff toLowerCase_def)
  from map_eq_append_conv [THEN iffD1, OF this]
  obtain f r where t: "t = f @ r" and "map toLowerCase_char r = k @ bk"
    by metis
  from map_eq_append_conv [THEN iffD1, OF this(2)]
  obtain found b where r: "r = found @ b" and m: "map toLowerCase_char found = k"
    by metis
  from m have "list_all2 sameLetter found k" using map_lower_eq_iff [OF assms] by blast
  with t r show "occursIgnoringCase k t" unfolding occursIgnoringCase_def by blast
next
  assume "occursIgnoringCase k t"
  then obtain front found bk where t: "t = front @ found @ bk" and "list_all2 sameLetter found k"
    unfolding occursIgnoringCase_def by blast
  then have "map toLowerCase_char found = k" using map_lower_eq_iff [OF assms] by blast
  with t have "toLowerCase t = map toLowerCase_char front @ k @ map toLowerCase_char bk"
    by (simp add: toLowerCase_def)
  then show "includes_str (toLowerCase t) k" unfolding includes_str_iff by blast
qed

text \<open>Two examples of the occurrence of the specification.\<close>

lemma occursIgnoringCase_examples:
  "occursIgnoringCase ''heart'' ''Fortis HEART Institute''"
  "\<not> occursIgnoringCase ''heart'' ''Fortis Hart Institute''"
proof -
  have k: "list_all (\<lambda>d. \<not> isCapital d) ''heart''" by code_simp
  have a: "includes_str (toLowerCase ''Fortis HEART Institute'') ''heart''" by code_simp
  have b: "\<not> includes_str (toLowerCase ''Fortis Hart Institute'') ''heart''" by code_simp
  show "occursIgnoringCase ''heart'' ''Fortis HEART Institute''"
    using includes_lower_iff [OF k] a by blast
  show "\<not> occursIgnoringCase ''heart'' ''Fortis Hart Institute''"
    using includes_lower_iff [OF k] b by blast
qed

lemma vocabulary_small_letters:
  "list_all (\<lambda>(specialty, ks). list_all (\<lambda>k. list_all (\<lambda>d. \<not> isCapital d) k) ks) SPECIALTY_KEYWORDS"
  by code_simp

lemma hospitalText_facilityText: "hospitalText hospital = toLowerCase (facilityText hospital)"
  by (simp add: hospitalText_def facilityText_def)

subsection \<open>The score of the loops\<close>

lemma checkNameAddress_fst:
  "fst (checkNameAddress text ks (s, m)) = s + 2 * length (filter (includes_str text) ks)"
  unfolding checkNameAddress_def
  by (induction ks arbitrary: s m) simp_all

lemma checkUpdate_fst:
  "fst (checkUpdate update ks (s, m)) =
     s + 3 * length (filter (includes_str (toLowerCase (update_data update))) ks)"
  unfolding checkUpdate_def Let_def
  by (induction ks arbitrary: s m) simp_all

lemma checkRecentUpdates_fst:
  "fst (checkRecentUpdates recentUpdates ks st) =
     fst st + 3 * sum_list (map (\<lambda>u. length (filter (includes_str (toLowerCase (update_data u))) ks))
                              recentUpdates)"
  unfolding checkRecentUpdates_def
proof (induction recentUpdates arbitrary: st)
  case Nil
  show ?case by simp
next
  case (Cons u us)
  obtain s m where st: "st = (s, m)" by (cases st)
  show ?case
    by (simp add: Cons.IH st checkUpdate_fst algebra_simps)
qed

text \<open>The score the two loops compute, in terms of the code's own matching.\<close>

lemma loops_score:
  "fst (checkRecentUpdates recentUpdates ks (checkNameAddress text ks (0, []))) =
     2 * length (filter (includes_str text) ks) +
     3 * sum_list (map (\<lambda>u. length (filter (includes_str (toLowerCase (update_data u))) ks))
                     recentUpdates)"
  by (simp add: checkRecentUpdates_fst checkNameAddress_fst)

text \<open>For keywords without capitals that score is the accumulated score of the specification.\<close>

lemma loops_score_spec:
  assumes "list_all (\<lambda>k. list_all (\<lambda>d. \<not> isCapital d) k) ks"
  shows "fst (checkRecentUpdates recentUpdates ks
                (checkNameAddress (hospitalText hospital) ks (0, []))) =
         accumulatedScore (facilityText hospital) (map update_data recentUpdates) ks"
proof -
  have k: "\<And>k t. k \<in> set ks \<Longrightarrow> includes_str (toLowerCase t) k \<longleftrightarrow> occursIgnoringCase k t"
    using assms by (intro includes_lower_iff) (simp add: list_all_iff)
  have a: "filter (includes_str (hospitalText hospital)) ks =
           filter (\<lambda>k. occursIgnoringCase k (facilityText hospital)) ks"
    by (rule filter_cong) (simp_all add: hospitalText_facilityText k)
  have b: "\<And>p. filter (includes_str (toLowerCase p)) ks = filter (\<lambda>k. occursIgnoringCase k p) ks"
    by (rule filter_cong) (simp_all add: k)
  show ?thesis
    unfolding loops_score accumulatedScore_def a b by (simp add: comp_def)
qed

lemma specialties_fold:
  assumes "list_all (\<lambda>(specialty, ks). list_all (\<lambda>k. list_all (\<lambda>d. \<not> isCapital d) k) ks) entries"
  shows "specialties_a (foldl (specialtyStep hospital recentUpdates) acc entries) =
     specialties_a acc @
     map fst (filter (\<lambda>(specialty, ks).
        2 \<le> accumulatedScore (facilityText hospital) (map update_data recentUpdates) ks) entries)"
  using assms
proof (induction entries arbitrary: acc)
  case Nil
  show ?case by simp
next
  case (Cons e es)
  obtain specialty ks where e: "e = (specialty, ks)" by (cases e)
  from Cons.prems e have ks: "list_all (\<lambda>k. list_all (\<lambda>d. \<not> isCapital d) k) ks"
    and es: "list_all (\<lambda>(specialty, ks). list_all (\<lambda>k. list_all (\<lambda>d. \<not> isCapital d) k) ks) es"
    by simp_all
  have "specialties_a (specialtyStep hospital recentUpdates acc e) =
        specialties_a acc @
        (if 2 \<le> accumulatedScore (facilityText hospital) (map update_data recentUpdates) ks
         then [specialty] else [])"
    using loops_score_spec [OF ks, of recentUpdates hospital]
    by (auto simp: specialtyStep_def e split: prod.splits)
  then show ?case by (simp add: Cons.IH [OF es] e)
qed

lemma analyzeSpecialties_list:
  "specialties_a (analyzeSpecialties hospital recentUpdates) =
     map fst (filter (\<lambda>(specialty, ks).
        2 \<le> accumulatedScore (facilityText hospital) (map update_data recentUpdates) ks)
        SPECIALTY_KEYWORDS)"
  using specialties_fold [OF vocabulary_small_letters, of hospital recentUpdates
      "\<lparr>specialties_a = [], reasons = []\<rparr>"]
  by (simp add: analyzeSpecialties_def)

text \<open>Nothing to search in: no specialty.\<close>

lemma analyzeSpecialties_nothing:
  "specialties_a (analyzeSpecialties
      \<lparr>organization_name = [], location_lat = lat, location_lng = lng,
       address = None, specialties = sp\<rparr> []) = []"
  "specialties_a (analyzeSpecialties
      \<lparr>organization_name = [], location_lat = lat, location_lng = lng,
       address = Some [], specialties = sp\<rparr> []) = []"
  by (simp_all add: analyzeSpecialties_def specialtyStep_def checkRecentUpdates_def
        checkNameAddress_def hospitalText_def toLowerCase_def toLowerCase_char_def
        SPECIALTY_KEYWORDS_def)

text \<open>
  A score of at least 2 means at least one match, in the text or in a payload: the
  threshold does not depend on how often a keyword is counted.
\<close>

lemma accumulatedScore_threshold:
  "2 \<le> accumulatedScore t payloads ks \<longleftrightarrow>
     (\<exists>k \<in> set ks. occursIgnoringCase k t \<or> (\<exists>p \<in> set payloads. occursIgnoringCase k p))"
proof -
  have a: "0 < length (filter (\<lambda>k. occursIgnoringCase k t) ks) \<longleftrightarrow>
           (\<exists>k \<in> set ks. occursIgnoringCase k t)"
    by (simp add: length_greater_0_conv filter_empty_conv)
  have b: "0 < sum_list (map (\<lambda>p. length (filter (\<lambda>k. occursIgnoringCase k p) ks)) payloads) \<longleftrightarrow>
           (\<exists>p \<in> set payloads. \<exists>k \<in> set ks. occursIgnoringCase k p)"
    by (induction payloads) (auto simp: filter_empty_conv)
  have "2 \<le> accumulatedScore t payloads ks \<longleftrightarrow>
        0 < length (filter (\<lambda>k. occursIgnoringCase k t) ks) \<or>
        0 < sum_list (map (\<lambda>p. length (filter (\<lambda>k. occursIgnoringCase k p) ks)) payloads)"
    unfolding accumulatedScore_def by linarith
  then show ?thesis unfolding a b by blast
qed

text \<open>
  C7. \<open>analyzeSpecialties\<close> puts a vocabulary specialty in its result exactly when the
  accumulated score of that specialty is at least 2: 2 points per keyword of the
  specialty that occurs, case-insensitively, in the facility text (name, space, address)
  and 3 points per keyword that occurs, case-insensitively, in the serialised payload of
  an update record. With an empty name, no address (or an empty one) and no update
  record the specialty list is empty. The function is a function of its two arguments
  alone, so equal inputs give equal results.
\<close>

theorem analyzeSpecialties_score_threshold:
  "(specialty \<in> set (specialties_a (analyzeSpecialties hospital recentUpdates)) \<longleftrightarrow>
      (\<exists>ks. (specialty, ks) \<in> set SPECIALTY_KEYWORDS \<and>
         2 \<le> accumulatedScore (facilityText hospital) (map update_data recentUpdates) ks)) \<and>
   specialties_a (analyzeSpecialties
      \<lparr>organization_name = [], location_lat = lat, location_lng = lng,
       address = None, specialties = sp\<rparr> []) = [] \<and>
   specialties_a (analyzeSpecialties
      \<lparr>organization_name = [], location_lat = lat, location_lng = lng,
       address = Some [], specialties = sp\<rparr> []) = []"
proof (intro conjI)
  show "specialty \<in> set (specialties_a (analyzeSpecialties hospital recentUpdates)) \<longleftrightarrow>
      (\<exists>ks. (specialty, ks) \<in> set SPECIALTY_KEYWORDS \<and>
         2 \<le> accumulatedScore (facilityText hospital) (map update_data recentUpdates) ks)"
    unfolding analyzeSpecialties_list by force
qed (rule analyzeSpecialties_nothing)+

text \<open>An example: one keyword in the name, one in the address, one in an update.\<close>

lemma analyzeSpecialties_example:
  "specialties_a (analyzeSpecialties
     \<lparr>organization_name = ''Fortis Heart Institute'', location_lat = 0, location_lng = 0,
      address = Some ''Sector 62, Trauma Road'', specialties = None\<rparr>
     [\<lparr>update_type = ''equipment'', update_data = ''{\"name\":\"Ventilator\"}''\<rparr>]) =
   [''Cardiac'', ''Trauma'', ''Respiratory'']"
  by code_simp

section \<open>Theorems: facility recommendation\<close>

lemma relatedLoop_fst:
  "fst (relatedLoop text ks (s, r)) = s + 20 * real (length (filter (includes_str text) ks))"
  unfolding relatedLoop_def
  by (induction ks arbitrary: s r) simp_all

lemma vocabulary_five:
  "map_of SPECIALTY_KEYWORDS kw = Some ks \<Longrightarrow> length ks = 5"
  by (auto simp: SPECIALTY_KEYWORDS_def split: if_splits)

lemma matchedPhrases_le: "matchedPhrases kw h \<le> 5"
proof (cases "map_of SPECIALTY_KEYWORDS kw")
  case None
  then show ?thesis by (simp add: matchedPhrases_def)
next
  case (Some ks)
  have "length (filter (includes_str (hospitalText h)) ks) \<le> length ks" by simp
  with vocabulary_five [OF Some] Some show ?thesis by (simp add: matchedPhrases_def)
qed

lemma relatedKeywords_cases:
  assumes "kw \<notin> set OBJECT_PROTOTYPE_KEYS"
  shows "\<exists>ks. relatedKeywords kw = Inr ks \<and>
           length (filter (includes_str (hospitalText h)) ks) = matchedPhrases kw h"
  using assms by (cases "map_of SPECIALTY_KEYWORDS kw") (simp_all add: relatedKeywords_def matchedPhrases_def)

lemma baseScore_exact:
  "kw \<in> set (resolveSpecialties h) \<Longrightarrow> baseScore kw h = Inr (100, ''Specialized in '' @ kw)"
  by (simp add: baseScore_def)

lemma baseScore_other:
  assumes "kw \<notin> set (resolveSpecialties h)" "kw \<notin> set OBJECT_PROTOTYPE_KEYS"
  shows "\<exists>r. baseScore kw h =
           Inr (20 * real (matchedPhrases kw h) +
                (if ''Trauma'' \<in> set (resolveSpecialties h) \<and> kw \<noteq> ''Trauma'' then 10 else 0), r)"
proof -
  obtain ks where ks: "relatedKeywords kw = Inr ks"
    "length (filter (includes_str (hospitalText h)) ks) = matchedPhrases kw h"
    using relatedKeywords_cases [OF assms(2), of h] by blast
  obtain s r where l: "relatedLoop (hospitalText h) ks (0, []) = (s, r)"
    by (cases "relatedLoop (hospitalText h) ks (0, [])")
  have "s = 20 * real (matchedPhrases kw h)"
    using relatedLoop_fst [of "hospitalText h" ks 0 "[]"] l ks(2) by simp
  then show ?thesis using assms(1) ks(1) l by (simp add: baseScore_def)
qed

lemma prototype_keys_not_vocabulary:
  "list_all (\<lambda>k. map_of SPECIALTY_KEYWORDS k = None) OBJECT_PROTOTYPE_KEYS"
  by code_simp

text \<open>For an inherited property name that the facility does not list, scoring throws.\<close>

lemma baseScore_throws:
  assumes "kw \<notin> set (resolveSpecialties h)" "kw \<in> set OBJECT_PROTOTYPE_KEYS"
  shows "baseScore kw h = Inl TypeError"
proof -
  have "map_of SPECIALTY_KEYWORDS kw = None"
    using assms(2) prototype_keys_not_vocabulary by (simp add: list_all_iff)
  then show ?thesis using assms by (simp add: baseScore_def relatedKeywords_def)
qed

lemma scoreHospital_matchScore:
  "baseScore kw h = Inr (b, r) \<Longrightarrow>
   \<exists>m. scoreHospital hav pLat pLng kw h = Inr m \<and>
       matchScore_m m = addBonus b (distanceBonus (hav pLat pLng (location_lat h) (location_lng h))) \<and>
       distance_m m = hav pLat pLng (location_lat h) (location_lng h)"
  by (simp add: scoreHospital_def Let_def)

text \<open>The bonus falls by at most one point per kilometre.\<close>

lemma distance_bonus_gap:
  assumes "d1 < d2 + 10000"
  shows "max 0 (50 - d2 / 1000) < max 0 (50 - d1 / 1000) + (10::real)"
  using assms by (simp add: max_def)

text \<open>
  Short of all five phrases, the exact match wins: a facility that lists the keyword
  outscores one that does not list it and matches at most four phrases, as long as it
  is less than 10 km farther from the pickup point.
\<close>

lemma exact_match_wins_up_to_four_phrases:
  assumes "kw \<in> set (resolveSpecialties h1)"
      and "kw \<notin> set (resolveSpecialties h2)"
      and "kw \<notin> set OBJECT_PROTOTYPE_KEYS"
      and "hav pLat pLng (location_lat h1) (location_lng h1) = Number d1"
      and "hav pLat pLng (location_lat h2) (location_lng h2) = Number d2"
      and "d1 < d2 + 10000"
      and "matchedPhrases kw h2 \<le> 4"
  shows "\<exists>m1 m2 s1 s2. scoreHospital hav pLat pLng kw h1 = Inr m1 \<and>
                 scoreHospital hav pLat pLng kw h2 = Inr m2 \<and>
                 matchScore_m m1 = Number s1 \<and> matchScore_m m2 = Number s2 \<and> s2 < s1"
proof -
  let ?t = "if ''Trauma'' \<in> set (resolveSpecialties h2) \<and> kw \<noteq> ''Trauma'' then 10 else (0::real)"
  obtain m1 where m1: "scoreHospital hav pLat pLng kw h1 = Inr m1"
      "matchScore_m m1 = Number (100 + max 0 (50 - d1 / 1000))"
    using scoreHospital_matchScore [OF baseScore_exact [OF assms(1)], of hav pLat pLng] assms(4)
    by (auto simp: addBonus_def distanceBonus_def)
  obtain r where "baseScore kw h2 = Inr (20 * real (matchedPhrases kw h2) + ?t, r)"
    using baseScore_other [OF assms(2) assms(3)] by blast
  then obtain m2 where m2: "scoreHospital hav pLat pLng kw h2 = Inr m2"
      "matchScore_m m2 = Number (20 * real (matchedPhrases kw h2) + ?t + max 0 (50 - d2 / 1000))"
    using scoreHospital_matchScore [of kw h2 _ r hav pLat pLng] assms(5)
    by (auto simp: addBonus_def distanceBonus_def)
  have "20 * real (matchedPhrases kw h2) + ?t \<le> 90" using assms(7) by simp
  with distance_bonus_gap [OF assms(6)]
  have "20 * real (matchedPhrases kw h2) + ?t + max 0 (50 - d2 / 1000) < 100 + max 0 (50 - d1 / 1000)"
    by linarith
  with m1 m2 show ?thesis by blast
qed



lemma heartCentre_phrases: "matchedPhrases ''Cardiac'' heartCentre = 5"
  by code_simp

lemma heartClinic_phrases: "matchedPhrases ''Cardiac'' heartClinic = 1"
  by code_simp








text \<open>A distance that is \<open>NaN\<close> makes the score \<open>NaN\<close>.\<close>

lemma NaN_distance_NaN_score:
  "scoreHospital hav pLat pLng kw h = Inr m \<Longrightarrow>
   hav pLat pLng (location_lat h) (location_lng h) = NaN \<Longrightarrow> matchScore_m m = NaN"
  by (auto simp: scoreHospital_def Let_def addBonus_def distanceBonus_def split: sum.splits)

section \<open>Theorems: token state machine\<close>

subsection \<open>Store primitives and the start of the journey\<close>

lemma update_token_Applied:
  "emergency_tokens w tokenId = Some row \<Longrightarrow>
   update_token Applied tokenId f w =
     ((False, [f row]), w\<lparr>emergency_tokens := (emergency_tokens w)(tokenId \<mapsto> f row)\<rparr>)"
  by (simp add: update_token_def)

lemma update_token_unchanged:
  "reply \<noteq> Applied \<or> emergency_tokens w tokenId = None \<Longrightarrow>
   update_token reply tokenId f w = ((reply = Rejected, []), w)"
  by (cases reply) (auto simp: update_token_def)

lemma single_simps:
  "single (False, [row]) = (False, Some row)"
  "single (e, []) = (True, None)"
  by (cases e; simp add: single_def)+

lemma startJourney_Applied:
  "emergency_tokens w tokenId = Some t \<Longrightarrow>
   startJourney Applied now tokenId w =
     (True, w\<lparr>emergency_tokens :=
                 (emergency_tokens w)(tokenId \<mapsto> t\<lparr>status := in_progress, started_at := Some now\<rparr>)\<rparr>)"
  by (simp add: startJourney_def update_token_Applied)

lemma startJourney_unchanged:
  "reply \<noteq> Applied \<or> emergency_tokens w tokenId = None \<Longrightarrow>
   startJourney reply now tokenId w = (reply \<noteq> Rejected, w)"
  by (simp add: startJourney_def update_token_unchanged)

text \<open>
  C2 (as amended). \<open>startJourney\<close> does not read the status of the token. When the store
  applies the write to an existing token, whatever its status, the call returns true and
  the token gets status \<open>in_progress\<close> and \<open>started_at\<close>, its other fields unchanged. The
  call returns false exactly when the store reports an error, and then the state is
  unchanged.
\<close>

theorem startJourney_unguarded:
  "(emergency_tokens w tokenId = Some t \<longrightarrow>
      fst (startJourney Applied now tokenId w) \<and>
      emergency_tokens (snd (startJourney Applied now tokenId w)) tokenId =
        Some (t\<lparr>status := in_progress, started_at := Some now\<rparr>)) \<and>
   (fst (startJourney reply now tokenId w) \<longleftrightarrow> reply \<noteq> Rejected) \<and>
   (\<not> fst (startJourney reply now tokenId w) \<longrightarrow> snd (startJourney reply now tokenId w) = w)"
proof (intro conjI impI)
  assume t: "emergency_tokens w tokenId = Some t"
  show "fst (startJourney Applied now tokenId w)"
    by (simp add: startJourney_Applied [OF t])
  show "emergency_tokens (snd (startJourney Applied now tokenId w)) tokenId =
        Some (t\<lparr>status := in_progress, started_at := Some now\<rparr>)"
    by (simp add: startJourney_Applied [OF t])
next
  show "fst (startJourney reply now tokenId w) \<longleftrightarrow> reply \<noteq> Rejected"
  proof (cases "reply = Applied \<and> emergency_tokens w tokenId \<noteq> None")
    case True
    then obtain t' where "emergency_tokens w tokenId = Some t'" by blast
    with True show ?thesis by (simp add: startJourney_Applied)
  next
    case False
    then have "reply \<noteq> Applied \<or> emergency_tokens w tokenId = None" by blast
    from startJourney_unchanged [OF this] show ?thesis by simp
  qed
next
  assume f: "\<not> fst (startJourney reply now tokenId w)"
  show "snd (startJourney reply now tokenId w) = w"
  proof (cases "reply = Applied \<and> emergency_tokens w tokenId \<noteq> None")
    case True
    then obtain t' where "emergency_tokens w tokenId = Some t'" by blast
    with True f show ?thesis by (simp add: startJourney_Applied)
  next
    case False
    then have "reply \<noteq> Applied \<or> emergency_tokens w tokenId = None" by blast
    from startJourney_unchanged [OF this] show ?thesis by simp
  qed
qed

lemma pendingWorld_T1: "emergency_tokens pendingWorld ''T1'' = Some pendingToken"
  by (simp add: pendingWorld_def)

lemma pendingToken_status: "status pendingToken = pending"
  by (simp add: pendingToken_def defaultRow_def)

text \<open>
  The statement of the specification fails on the code: \<open>startJourney\<close> on a pending token
  succeeds and changes its status.
\<close>

theorem startJourney_unguarded_counterexample:
  "map_option status (emergency_tokens pendingWorld ''T1'') = Some pending \<and>
   fst (startJourney Applied ''2025-01-01T10:05:00.000Z'' ''T1'' pendingWorld) \<and>
   map_option status
     (emergency_tokens (snd (startJourney Applied ''2025-01-01T10:05:00.000Z'' ''T1'' pendingWorld)) ''T1'')
     = Some in_progress"
  by (simp add: startJourney_Applied [OF pendingWorld_T1] pendingWorld_T1 pendingToken_status)

text \<open>The theorem at the pending token, for an applied and for a rejected write.\<close>

theorem startJourney_unguarded_witness:
  "emergency_tokens pendingWorld ''T1'' = Some pendingToken \<and>
   fst (startJourney Applied ''2025-01-01T10:05:00.000Z'' ''T1'' pendingWorld) \<and>
   emergency_tokens (snd (startJourney Applied ''2025-01-01T10:05:00.000Z'' ''T1'' pendingWorld)) ''T1'' =
     Some (pendingToken\<lparr>status := in_progress, started_at := Some ''2025-01-01T10:05:00.000Z''\<rparr>) \<and>
   \<not> fst (startJourney Rejected ''2025-01-01T10:05:00.000Z'' ''T1'' pendingWorld) \<and>
   snd (startJourney Rejected ''2025-01-01T10:05:00.000Z'' ''T1'' pendingWorld) = pendingWorld"
  using startJourney_unguarded [of pendingWorld "''T1''" pendingToken "''2025-01-01T10:05:00.000Z''" Rejected]
    pendingWorld_T1
  by simp

subsection \<open>Decline\<close>

lemma declineEmergency_Applied:
  assumes "user auth = Some uid" "isHospitalUser auth" "emergency_tokens w tokenId = Some t"
  shows "declineEmergency auth Applied tokenId reason w =
     (True, replaceToken (t\<lparr>status := declined, decline_reason := Some reason, hospital_id := Some uid\<rparr>)
              (w\<lparr>emergency_tokens := (emergency_tokens w)(tokenId \<mapsto>
                   t\<lparr>status := declined, decline_reason := Some reason, hospital_id := Some uid\<rparr>)\<rparr>))"
  using assms by (simp add: declineEmergency_def update_token_Applied single_simps)

lemma declineEmergency_fails:
  assumes "user auth = None \<or> \<not> isHospitalUser auth \<or> reply \<noteq> Applied \<or> emergency_tokens w tokenId = None"
  shows "declineEmergency auth reply tokenId reason w = (False, w)"
proof (cases "user auth")
  case None
  then show ?thesis by (simp add: declineEmergency_def)
next
  case (Some uid)
  show ?thesis
  proof (cases "isHospitalUser auth")
    case False
    with Some show ?thesis by (simp add: declineEmergency_def)
  next
    case True
    with assms Some have "reply \<noteq> Applied \<or> emergency_tokens w tokenId = None" by simp
    from update_token_unchanged [OF this] Some True show ?thesis
      by (simp add: declineEmergency_def single_simps)
  qed
qed

lemma replaceToken_store:
  "emergency_tokens (replaceToken u w) = emergency_tokens w"
  "ambulances (replaceToken u w) = ambulances w"
  by (simp_all add: replaceToken_def Let_def)

lemma declineEmergency_success:
  assumes "declineEmergency auth reply tokenId reason w = (True, w')"
  shows "\<exists>uid t. user auth = Some uid \<and> isHospitalUser auth \<and> reply = Applied \<and>
           emergency_tokens w tokenId = Some t \<and>
           emergency_tokens w' = (emergency_tokens w)(tokenId \<mapsto>
              t\<lparr>status := declined, decline_reason := Some reason, hospital_id := Some uid\<rparr>) \<and>
           ambulances w' = ambulances w"
proof -
  have "\<not> (user auth = None \<or> \<not> isHospitalUser auth \<or> reply \<noteq> Applied \<or> emergency_tokens w tokenId = None)"
  proof
    assume "user auth = None \<or> \<not> isHospitalUser auth \<or> reply \<noteq> Applied \<or> emergency_tokens w tokenId = None"
    from declineEmergency_fails [OF this, of reason] assms show False by simp
  qed
  then have n: "user auth \<noteq> None" "isHospitalUser auth" "reply = Applied" "emergency_tokens w tokenId \<noteq> None"
    by simp_all
  then obtain uid t where u: "user auth = Some uid" "isHospitalUser auth" "reply = Applied"
      "emergency_tokens w tokenId = Some t" by auto
  from declineEmergency_Applied [OF u(1,2,4), of reason] assms u(3)
  have "w' = replaceToken (t\<lparr>status := declined, decline_reason := Some reason, hospital_id := Some uid\<rparr>)
              (w\<lparr>emergency_tokens := (emergency_tokens w)(tokenId \<mapsto>
                   t\<lparr>status := declined, decline_reason := Some reason, hospital_id := Some uid\<rparr>)\<rparr>)"
    by simp
  then show ?thesis using u by (simp add: replaceToken_store)
qed

text \<open>
  C3 (as amended). \<open>declineEmergency\<close> does not inspect the reason. For a signed-in hospital
  user and a write that the store applies to an existing token, the call returns true for
  every reason, the empty string included, and the token gets status \<open>declined\<close>, that
  reason as \<open>decline_reason\<close> and the caller's id as \<open>hospital_id\<close>. Whenever the call
  returns false the state is unchanged.
\<close>

theorem declineEmergency_any_reason:
  "(user auth = Some uid \<and> isHospitalUser auth \<and> emergency_tokens w tokenId = Some t \<longrightarrow>
      fst (declineEmergency auth Applied tokenId reason w) \<and>
      emergency_tokens (snd (declineEmergency auth Applied tokenId reason w)) tokenId =
        Some (t\<lparr>status := declined, decline_reason := Some reason, hospital_id := Some uid\<rparr>)) \<and>
   (\<not> fst (declineEmergency auth reply tokenId reason w) \<longrightarrow>
      snd (declineEmergency auth reply tokenId reason w) = w)"
proof (intro conjI impI)
  assume a: "user auth = Some uid \<and> isHospitalUser auth \<and> emergency_tokens w tokenId = Some t"
  then have d: "declineEmergency auth Applied tokenId reason w =
     (True, replaceToken (t\<lparr>status := declined, decline_reason := Some reason, hospital_id := Some uid\<rparr>)
              (w\<lparr>emergency_tokens := (emergency_tokens w)(tokenId \<mapsto>
                   t\<lparr>status := declined, decline_reason := Some reason, hospital_id := Some uid\<rparr>)\<rparr>))"
    by (intro declineEmergency_Applied) simp_all
  show "fst (declineEmergency auth Applied tokenId reason w)" by (simp add: d)
  show "emergency_tokens (snd (declineEmergency auth Applied tokenId reason w)) tokenId =
        Some (t\<lparr>status := declined, decline_reason := Some reason, hospital_id := Some uid\<rparr>)"
    by (simp add: d replaceToken_store)
next
  assume f: "\<not> fst (declineEmergency auth reply tokenId reason w)"
  obtain ok w' where r: "declineEmergency auth reply tokenId reason w = (ok, w')"
    by (cases "declineEmergency auth reply tokenId reason w")
  with f have "\<not> ok" by simp
  have "w' = w"
  proof (cases "user auth = None \<or> \<not> isHospitalUser auth \<or> reply \<noteq> Applied \<or> emergency_tokens w tokenId = None")
    case True
    from declineEmergency_fails [OF True, of reason] r show ?thesis by simp
  next
    case False
    then obtain uid' t' where "user auth = Some uid'" "isHospitalUser auth" "reply = Applied"
      "emergency_tokens w tokenId = Some t'" by auto
    with declineEmergency_Applied [of auth uid' w tokenId t' reason] r \<open>\<not> ok\<close> show ?thesis by simp
  qed
  with r show "snd (declineEmergency auth reply tokenId reason w) = w" by simp
qed

lemma hospitalUser_simps: "user hospitalUser = Some ''U7''" "isHospitalUser hospitalUser"
  by (simp_all add: hospitalUser_def isHospitalUser_def)

text \<open>
  The statement of the specification fails on the code: declining a pending token with
  the empty reason succeeds.
\<close>

theorem declineEmergency_any_reason_counterexample:
  "map_option status (emergency_tokens pendingWorld ''T1'') = Some pending \<and>
   fst (declineEmergency hospitalUser Applied ''T1'' [] pendingWorld) \<and>
   map_option status
     (emergency_tokens (snd (declineEmergency hospitalUser Applied ''T1'' [] pendingWorld)) ''T1'') = Some declined \<and>
   map_option decline_reason
     (emergency_tokens (snd (declineEmergency hospitalUser Applied ''T1'' [] pendingWorld)) ''T1'') = Some (Some [])"
  by (simp add: declineEmergency_Applied [OF hospitalUser_simps pendingWorld_T1] replaceToken_store
        pendingWorld_T1 pendingToken_status)

text \<open>The theorem at the pending token, with reason "no beds", applied and with zero rows.\<close>

theorem declineEmergency_any_reason_witness:
  "user hospitalUser = Some ''U7'' \<and> isHospitalUser hospitalUser \<and>
   emergency_tokens pendingWorld ''T1'' = Some pendingToken \<and>
   fst (declineEmergency hospitalUser Applied ''T1'' ''no beds'' pendingWorld) \<and>
   emergency_tokens (snd (declineEmergency hospitalUser Applied ''T1'' ''no beds'' pendingWorld)) ''T1'' =
     Some (pendingToken\<lparr>status := declined, decline_reason := Some ''no beds'', hospital_id := Some ''U7''\<rparr>) \<and>
   \<not> fst (declineEmergency hospitalUser ZeroRows ''T1'' ''no beds'' pendingWorld) \<and>
   snd (declineEmergency hospitalUser ZeroRows ''T1'' ''no beds'' pendingWorld) = pendingWorld"
proof -
  have z: "declineEmergency hospitalUser ZeroRows ''T1'' ''no beds'' pendingWorld = (False, pendingWorld)"
    by (rule declineEmergency_fails) simp
  from declineEmergency_any_reason [of hospitalUser "''U7''" pendingWorld "''T1''" pendingToken "''no beds''" ZeroRows]
    hospitalUser_simps pendingWorld_T1 z
  show ?thesis by simp
qed

text \<open>
  C10. A successful decline writes the id of the declining user to \<open>hospital_id\<close> and
  leaves \<open>hospital_name\<close>, \<open>hospital_lat\<close> and \<open>hospital_lng\<close> as they were: a token that was
  never assigned ends up declined with a \<open>hospital_id\<close> and no other facility field.
\<close>

theorem declineEmergency_writes_decliner_id:
  assumes "declineEmergency auth reply tokenId reason w = (True, w')"
      and "emergency_tokens w tokenId = Some t"
  shows "\<exists>uid t'. user auth = Some uid \<and> emergency_tokens w' tokenId = Some t' \<and>
           status t' = declined \<and> hospital_id t' = Some uid \<and>
           hospital_name t' = hospital_name t \<and> hospital_lat t' = hospital_lat t \<and>
           hospital_lng t' = hospital_lng t \<and>
           t' = t\<lparr>status := declined, decline_reason := Some reason, hospital_id := Some uid\<rparr>"
  using declineEmergency_success [OF assms(1)] assms(2) by auto

text \<open>The theorem at the pending token, whose facility fields are all \<open>null\<close>.\<close>

theorem declineEmergency_writes_decliner_id_witness:
  "declineEmergency hospitalUser Applied ''T1'' ''no beds'' pendingWorld =
     (True, snd (declineEmergency hospitalUser Applied ''T1'' ''no beds'' pendingWorld)) \<and>
   emergency_tokens pendingWorld ''T1'' = Some pendingToken \<and>
   hospital_id pendingToken = None \<and> hospital_name pendingToken = None \<and>
   hospital_lat pendingToken = None \<and> hospital_lng pendingToken = None \<and>
   (\<exists>t'. emergency_tokens (snd (declineEmergency hospitalUser Applied ''T1'' ''no beds'' pendingWorld)) ''T1'' = Some t' \<and>
      status t' = declined \<and> hospital_id t' = Some ''U7'' \<and> hospital_name t' = None \<and>
      hospital_lat t' = None \<and> hospital_lng t' = None)"
proof -
  have s: "declineEmergency hospitalUser Applied ''T1'' ''no beds'' pendingWorld =
     (True, snd (declineEmergency hospitalUser Applied ''T1'' ''no beds'' pendingWorld))"
    by (simp add: declineEmergency_Applied [OF hospitalUser_simps pendingWorld_T1])
  have n: "hospital_id pendingToken = None" "hospital_name pendingToken = None"
    "hospital_lat pendingToken = None" "hospital_lng pendingToken = None"
    by (simp_all add: pendingToken_def defaultRow_def)
  from declineEmergency_writes_decliner_id [OF s pendingWorld_T1] hospitalUser_simps(1) s pendingWorld_T1 n
  show ?thesis by auto
qed

subsection \<open>Complete and cancel\<close>

lemma update_ambulance_Applied:
  "ambulances w ambulanceId = Some a \<Longrightarrow>
   update_ambulance Applied ambulanceId f w =
     ((False, [f a]), w\<lparr>ambulances := (ambulances w)(ambulanceId \<mapsto> f a)\<rparr>)"
  by (simp add: update_ambulance_def)

text \<open>Whatever the store answers to the token write, the ambulance is cleared and True returned.\<close>

lemma completeEmergency_token_write_unchecked:
  assumes "tokenReply \<noteq> Applied" "ambulances w ambulanceId = Some a"
  shows "completeEmergency tokenReply Applied now tokenId ambulanceId w =
     (True, w\<lparr>ambulances := (ambulances w)(ambulanceId \<mapsto>
                  a\<lparr>active_token_id := None, emergency_status := inactive\<rparr>),
              activeToken := None\<rparr>)"
  using assms
  by (simp add: completeEmergency_def update_token_unchanged update_ambulance_Applied)

lemma cancelEmergency_token_write_unchecked:
  assumes "tokenReply \<noteq> Applied" "ambulances w ambulanceId = Some a"
  shows "cancelEmergency tokenReply Applied tokenId ambulanceId w =
     (True, w\<lparr>ambulances := (ambulances w)(ambulanceId \<mapsto>
                  a\<lparr>active_token_id := None, emergency_status := inactive\<rparr>),
              activeToken := None\<rparr>)"
  using assms
  by (simp add: cancelEmergency_def update_token_unchanged update_ambulance_Applied)

lemma toHospitalWorld_A1:
  "ambulances toHospitalWorld ''A1'' = Some \<lparr>active_token_id = Some ''T1'', emergency_status = active\<rparr>"
  by (simp add: toHospitalWorld_def)

lemma toHospitalWorld_T1:
  "emergency_tokens toHospitalWorld ''T1'' = Some (pendingToken\<lparr>status := to_hospital\<rparr>)"
  by (simp add: toHospitalWorld_def)

text \<open>
  C4. The specification asks that a rejected or zero-row token write leaves the ambulance as it
  is and is not reported as success. The code does otherwise: with the token write
  rejected (\<open>completeEmergency\<close>) or applied to zero rows (\<open>cancelEmergency\<close>), the token keeps
  its status \<open>to_hospital\<close>, the ambulance is cleared all the same, and the call returns
  true.
\<close>

theorem complete_cancel_ignore_rejected_write:
  "fst (completeEmergency Rejected Applied ''2025-01-01T11:00:00.000Z'' ''T1'' ''A1'' toHospitalWorld) \<and>
   map_option status (emergency_tokens
     (snd (completeEmergency Rejected Applied ''2025-01-01T11:00:00.000Z'' ''T1'' ''A1'' toHospitalWorld)) ''T1'')
     = Some to_hospital \<and>
   ambulances toHospitalWorld ''A1'' = Some \<lparr>active_token_id = Some ''T1'', emergency_status = active\<rparr> \<and>
   ambulances
     (snd (completeEmergency Rejected Applied ''2025-01-01T11:00:00.000Z'' ''T1'' ''A1'' toHospitalWorld)) ''A1''
     = Some \<lparr>active_token_id = None, emergency_status = inactive\<rparr> \<and>
   fst (cancelEmergency ZeroRows Applied ''T1'' ''A1'' toHospitalWorld) \<and>
   map_option status (emergency_tokens
     (snd (cancelEmergency ZeroRows Applied ''T1'' ''A1'' toHospitalWorld)) ''T1'') = Some to_hospital \<and>
   ambulances (snd (cancelEmergency ZeroRows Applied ''T1'' ''A1'' toHospitalWorld)) ''A1''
     = Some \<lparr>active_token_id = None, emergency_status = inactive\<rparr>"
proof -
  have c: "completeEmergency Rejected Applied ''2025-01-01T11:00:00.000Z'' ''T1'' ''A1'' toHospitalWorld =
     (True, toHospitalWorld\<lparr>ambulances := (ambulances toHospitalWorld)(''A1'' \<mapsto>
                  \<lparr>active_token_id = None, emergency_status = inactive\<rparr>),
              activeToken := None\<rparr>)"
    using completeEmergency_token_write_unchecked [of Rejected toHospitalWorld "''A1''", OF _ toHospitalWorld_A1]
    by simp
  have d: "cancelEmergency ZeroRows Applied ''T1'' ''A1'' toHospitalWorld =
     (True, toHospitalWorld\<lparr>ambulances := (ambulances toHospitalWorld)(''A1'' \<mapsto>
                  \<lparr>active_token_id = None, emergency_status = inactive\<rparr>),
              activeToken := None\<rparr>)"
    using cancelEmergency_token_write_unchecked [of ZeroRows toHospitalWorld "''A1''", OF _ toHospitalWorld_A1]
    by simp
  show ?thesis
    by (simp add: c d toHospitalWorld_T1 toHospitalWorld_A1)
qed

subsection \<open>Assignment and facility-initiated creation\<close>

lemma update_ambulance_tokens:
  "emergency_tokens (snd (update_ambulance reply ambulanceId f w)) = emergency_tokens w"
  by (cases reply) (simp_all add: update_ambulance_def split: option.splits)

lemma assignHospitalWithRoutes_Applied:
  assumes "user auth = Some uid" "emergency_tokens w tokenId = Some t"
  shows "assignHospitalWithRoutes auth Applied now tokenId hospitalId hospitalName hospitalLat hospitalLng
           routeToPatient routeToHospital w =
     (True, replaceToken
        (assignValues now (if isUuid hospitalId then hospitalId else uid) hospitalName hospitalLat
           hospitalLng routeToPatient routeToHospital t)
        (w\<lparr>emergency_tokens := (emergency_tokens w)(tokenId \<mapsto>
             assignValues now (if isUuid hospitalId then hospitalId else uid) hospitalName hospitalLat
               hospitalLng routeToPatient routeToHospital t)\<rparr>))"
  using assms by (simp add: assignHospitalWithRoutes_def Let_def update_token_Applied single_simps)

lemma assignHospitalWithRoutes_fails:
  assumes "user auth = None \<or> reply \<noteq> Applied \<or> emergency_tokens w tokenId = None"
  shows "assignHospitalWithRoutes auth reply now tokenId hospitalId hospitalName hospitalLat hospitalLng
           routeToPatient routeToHospital w = (False, w)"
proof (cases "user auth")
  case None
  then show ?thesis by (simp add: assignHospitalWithRoutes_def)
next
  case (Some uid)
  with assms have "reply \<noteq> Applied \<or> emergency_tokens w tokenId = None" by simp
  from update_token_unchanged [OF this] Some show ?thesis
    by (simp add: assignHospitalWithRoutes_def Let_def single_simps)
qed

lemma assignHospitalWithRoutes_success:
  assumes "assignHospitalWithRoutes auth reply now tokenId hospitalId hospitalName hospitalLat hospitalLng
           routeToPatient routeToHospital w = (True, w')"
  shows "\<exists>uid t. user auth = Some uid \<and> reply = Applied \<and> emergency_tokens w tokenId = Some t \<and>
           emergency_tokens w' tokenId =
             Some (assignValues now (if isUuid hospitalId then hospitalId else uid) hospitalName
                     hospitalLat hospitalLng routeToPatient routeToHospital t)"
proof -
  have "\<not> (user auth = None \<or> reply \<noteq> Applied \<or> emergency_tokens w tokenId = None)"
  proof
    assume "user auth = None \<or> reply \<noteq> Applied \<or> emergency_tokens w tokenId = None"
    from assignHospitalWithRoutes_fails [OF this] assms show False by simp
  qed
  then have "user auth \<noteq> None" "reply = Applied" "emergency_tokens w tokenId \<noteq> None" by simp_all
  then obtain uid t where u: "user auth = Some uid" "reply = Applied" "emergency_tokens w tokenId = Some t"
    by auto
  from assignHospitalWithRoutes_Applied [OF u(1) u(3)] assms u(2)
  have "w' = replaceToken
        (assignValues now (if isUuid hospitalId then hospitalId else uid) hospitalName hospitalLat
           hospitalLng routeToPatient routeToHospital t)
        (w\<lparr>emergency_tokens := (emergency_tokens w)(tokenId \<mapsto>
             assignValues now (if isUuid hospitalId then hospitalId else uid) hospitalName hospitalLat
               hospitalLng routeToPatient routeToHospital t)\<rparr>)"
    by simp
  then show ?thesis using u by (simp add: replaceToken_store)
qed

lemma assignValues_legacy:
  "selected_route (assignValues now rid n la lo rp rh t) = Some rp"
  "route_type (assignValues now rid n la lo rp rh t) = Some (type rp)"
  "route_distance_meters (assignValues now rid n la lo rp rh t) = Some (distance rp + distance rh)"
  "route_duration_seconds (assignValues now rid n la lo rp rh t) = Some (duration rp + duration rh)"
  by (simp_all add: assignValues_def)

lemma insertData_fields:
  "id_t (insertData auth now g aid alat alng plat plng paddr hid hname hlat hlng rp rh et mk) = gen_id g"
  "status (insertData auth now g aid alat alng plat plng paddr hid hname hlat hlng rp rh et mk) = route_selected"
  "route_to_patient (insertData auth now g aid alat alng plat plng paddr hid hname hlat hlng rp rh et mk) = Some rp"
  "route_to_hospital (insertData auth now g aid alat alng plat plng paddr hid hname hlat hlng rp rh et mk) = Some rh"
  "hospital_id (insertData auth now g aid alat alng plat plng paddr hid hname hlat hlng rp rh et mk) = resolvedHospitalId auth hid"
  "hospital_name (insertData auth now g aid alat alng plat plng paddr hid hname hlat hlng rp rh et mk) = Some hname"
  "hospital_lat (insertData auth now g aid alat alng plat plng paddr hid hname hlat hlng rp rh et mk) = Some hlat"
  "hospital_lng (insertData auth now g aid alat alng plat plng paddr hid hname hlat hlng rp rh et mk) = Some hlng"
  "assigned_at (insertData auth now g aid alat alng plat plng paddr hid hname hlat hlng rp rh et mk) = Some now"
  "selected_route (insertData auth now g aid alat alng plat plng paddr hid hname hlat hlng rp rh et mk) = Some rp"
  "route_type (insertData auth now g aid alat alng plat plng paddr hid hname hlat hlng rp rh et mk) = Some (type rp)"
  "route_distance_meters (insertData auth now g aid alat alng plat plng paddr hid hname hlat hlng rp rh et mk) = Some (distance rp + distance rh)"
  "route_duration_seconds (insertData auth now g aid alat alng plat plng paddr hid hname hlat hlng rp rh et mk) = Some (duration rp + duration rh)"
  by (simp_all add: insertData_def defaultRow_def)

lemma insert_token_cases:
  "insert_token reply row w =
     (if reply = Applied \<and> emergency_tokens w (id_t row) = None
      then ((False, [row]), w\<lparr>emergency_tokens := (emergency_tokens w)(id_t row \<mapsto> row)\<rparr>)
      else ((True, []), w))"
  by (simp add: insert_token_def)

lemma createHospitalEmergency_success:
  assumes "createHospitalEmergency auth insertReply linkReply now g aid alat alng plat plng paddr
             hid hname hlat hlng rp rh et mk w = (Some t, w')"
  shows "isHospitalUser auth \<and> insertReply = Applied \<and>
         t = insertData auth now g aid alat alng plat plng paddr hid hname hlat hlng rp rh et mk \<and>
         emergency_tokens w (id_t t) = None \<and>
         snd (insert_token insertReply t w) = w\<lparr>emergency_tokens := (emergency_tokens w)(id_t t \<mapsto> t)\<rparr> \<and>
         emergency_tokens w' = (emergency_tokens w)(id_t t \<mapsto> t)"
proof -
  let ?row = "insertData auth now g aid alat alng plat plng paddr hid hname hlat hlng rp rh et mk"
  have h: "isHospitalUser auth"
    using assms by (auto simp: createHospitalEmergency_def split: if_splits)
  have ok: "insertReply = Applied \<and> emergency_tokens w (id_t ?row) = None"
  proof (rule ccontr)
    assume "\<not> (insertReply = Applied \<and> emergency_tokens w (id_t ?row) = None)"
    then have "insert_token insertReply ?row w = ((True, []), w)"
      by (simp add: insert_token_cases)
    with assms h show False by (simp add: createHospitalEmergency_def single_simps)
  qed
  then have i: "insert_token insertReply ?row w =
      ((False, [?row]), w\<lparr>emergency_tokens := (emergency_tokens w)(id_t ?row \<mapsto> ?row)\<rparr>)"
    by (simp add: insert_token_cases)
  obtain r2 w2 where u: "update_ambulance linkReply aid
      (\<lambda>a. a\<lparr>active_token_id := Some (id_t ?row), emergency_status := active\<rparr>)
      (w\<lparr>emergency_tokens := (emergency_tokens w)(id_t ?row \<mapsto> ?row)\<rparr>) = (r2, w2)"
    by (cases "update_ambulance linkReply aid
      (\<lambda>a. a\<lparr>active_token_id := Some (id_t ?row), emergency_status := active\<rparr>)
      (w\<lparr>emergency_tokens := (emergency_tokens w)(id_t ?row \<mapsto> ?row)\<rparr>)")
  have r: "t = ?row" "w' = w2"
    using assms h i u by (simp_all add: createHospitalEmergency_def single_simps)
  have "emergency_tokens w2 = (emergency_tokens w)(id_t ?row \<mapsto> ?row)"
    using update_ambulance_tokens [of linkReply aid
      "\<lambda>a. a\<lparr>active_token_id := Some (id_t ?row), emergency_status := active\<rparr>"
      "w\<lparr>emergency_tokens := (emergency_tokens w)(id_t ?row \<mapsto> ?row)\<rparr>"] u by simp
  with h ok i r show ?thesis by simp
qed

lemma createHospitalEmergency_Applied:
  assumes "isHospitalUser auth" "emergency_tokens w (gen_id g) = None"
  shows "createHospitalEmergency auth Applied linkReply now g aid alat alng plat plng paddr
             hid hname hlat hlng rp rh et mk w =
     (Some (insertData auth now g aid alat alng plat plng paddr hid hname hlat hlng rp rh et mk),
      snd (update_ambulance linkReply aid
        (\<lambda>a. a\<lparr>active_token_id := Some (gen_id g), emergency_status := active\<rparr>)
        (w\<lparr>emergency_tokens := (emergency_tokens w)(gen_id g \<mapsto>
            insertData auth now g aid alat alng plat plng paddr hid hname hlat hlng rp rh et mk)\<rparr>)))"
  using assms
  by (simp add: createHospitalEmergency_def insert_token_cases insertData_fields(1) single_simps
      split: prod.splits)

text \<open>
  C5 (as amended). After a successful \<open>assignHospitalWithRoutes\<close> and after a successful
  \<open>createHospitalEmergency\<close>, \<open>selected_route\<close> is the to-pickup leg and \<open>route_type\<close> is its
  tag, while \<open>route_distance_meters\<close> and \<open>route_duration_seconds\<close> are the sums of the
  distances and of the durations of both legs.
\<close>

theorem legacy_route_fields:
  "(assignHospitalWithRoutes auth reply now tokenId hospitalId hospitalName hospitalLat hospitalLng
      routeToPatient routeToHospital w = (True, w') \<longrightarrow>
      (\<exists>t'. emergency_tokens w' tokenId = Some t' \<and>
         selected_route t' = Some routeToPatient \<and>
         route_type t' = Some (type routeToPatient) \<and>
         route_distance_meters t' = Some (distance routeToPatient + distance routeToHospital) \<and>
         route_duration_seconds t' = Some (duration routeToPatient + duration routeToHospital))) \<and>
   (createHospitalEmergency auth insertReply linkReply now g ambulanceId ambulanceLat ambulanceLng
      pickupLat pickupLng pickupAddress hospitalId hospitalName hospitalLat hospitalLng
      routeToPatient routeToHospital emergencyType medicalKeyword w = (Some t, w'') \<longrightarrow>
      emergency_tokens w'' (id_t t) = Some t \<and>
      selected_route t = Some routeToPatient \<and>
      route_type t = Some (type routeToPatient) \<and>
      route_distance_meters t = Some (distance routeToPatient + distance routeToHospital) \<and>
      route_duration_seconds t = Some (duration routeToPatient + duration routeToHospital))"
proof (intro conjI impI)
  assume "assignHospitalWithRoutes auth reply now tokenId hospitalId hospitalName hospitalLat hospitalLng
      routeToPatient routeToHospital w = (True, w')"
  from assignHospitalWithRoutes_success [OF this]
  show "\<exists>t'. emergency_tokens w' tokenId = Some t' \<and>
         selected_route t' = Some routeToPatient \<and>
         route_type t' = Some (type routeToPatient) \<and>
         route_distance_meters t' = Some (distance routeToPatient + distance routeToHospital) \<and>
         route_duration_seconds t' = Some (duration routeToPatient + duration routeToHospital)"
    by (auto simp: assignValues_legacy)
next
  assume "createHospitalEmergency auth insertReply linkReply now g ambulanceId ambulanceLat ambulanceLng
      pickupLat pickupLng pickupAddress hospitalId hospitalName hospitalLat hospitalLng
      routeToPatient routeToHospital emergencyType medicalKeyword w = (Some t, w'')"
  from createHospitalEmergency_success [OF this]
  have t: "t = insertData auth now g ambulanceId ambulanceLat ambulanceLng pickupLat pickupLng
             pickupAddress hospitalId hospitalName hospitalLat hospitalLng routeToPatient routeToHospital
             emergencyType medicalKeyword"
    and w: "emergency_tokens w'' = (emergency_tokens w)(id_t t \<mapsto> t)"
    by simp_all
  show "emergency_tokens w'' (id_t t) = Some t" by (simp add: w)
  show "selected_route t = Some routeToPatient" by (simp add: t insertData_fields)
  show "route_type t = Some (type routeToPatient)" by (simp add: t insertData_fields)
  show "route_distance_meters t = Some (distance routeToPatient + distance routeToHospital)"
    by (simp add: t insertData_fields)
  show "route_duration_seconds t = Some (duration routeToPatient + duration routeToHospital)"
    by (simp add: t insertData_fields)
qed

lemma routeA_simps: "distance routeA = 1000" "duration routeA = 120" "type routeA = fastest"
  by (simp_all add: routeA_def)

lemma routeB_simps: "distance routeB = 2500" "duration routeB = 300"
  by (simp_all add: routeB_def)

lemma pendingWorld_T2: "emergency_tokens pendingWorld (gen_id generatedT2) = None"
  by (simp add: pendingWorld_def generatedT2_def)

text \<open>
  The statement of the specification fails on the code: with legs of 1000 m / 120 s and
  2500 m / 300 s the legacy fields hold 3500 m and 420 s, not the 1000 m and 120 s of the
  to-pickup leg.
\<close>

theorem legacy_route_fields_counterexample:
  "fst (assignHospitalWithRoutes hospitalUser Applied ''2025-01-01T10:02:00.000Z'' ''T1'' ''U7''
          ''City Hospital'' 32 78 routeA routeB pendingWorld) \<and>
   map_option route_distance_meters
     (emergency_tokens (snd (assignHospitalWithRoutes hospitalUser Applied ''2025-01-01T10:02:00.000Z''
          ''T1'' ''U7'' ''City Hospital'' 32 78 routeA routeB pendingWorld)) ''T1'') = Some (Some 3500) \<and>
   distance routeA = 1000 \<and>
   map_option route_duration_seconds
     (emergency_tokens (snd (assignHospitalWithRoutes hospitalUser Applied ''2025-01-01T10:02:00.000Z''
          ''T1'' ''U7'' ''City Hospital'' 32 78 routeA routeB pendingWorld)) ''T1'') = Some (Some 420) \<and>
   duration routeA = 120 \<and>
   map_option route_distance_meters
     (fst (createHospitalEmergency hospitalUser Applied Applied ''2025-01-01T10:10:00.000Z'' generatedT2
          ''A1'' 30 76 31 77 None ''U7'' ''City Hospital'' 32 78 routeA routeB None None pendingWorld))
     = Some (Some 3500)"
  by (simp add: assignHospitalWithRoutes_Applied [OF hospitalUser_simps(1) pendingWorld_T1]
      createHospitalEmergency_Applied [OF hospitalUser_simps(2) pendingWorld_T2]
      replaceToken_store assignValues_legacy insertData_fields routeA_simps routeB_simps)

text \<open>The theorem at an assignment of the pending token and at the creation of a second token.\<close>

theorem legacy_route_fields_witness:
  "assignHospitalWithRoutes hospitalUser Applied ''2025-01-01T10:02:00.000Z'' ''T1'' ''U7''
       ''City Hospital'' 32 78 routeA routeB pendingWorld =
     (True, snd (assignHospitalWithRoutes hospitalUser Applied ''2025-01-01T10:02:00.000Z'' ''T1'' ''U7''
       ''City Hospital'' 32 78 routeA routeB pendingWorld)) \<and>
   (\<exists>t'. emergency_tokens (snd (assignHospitalWithRoutes hospitalUser Applied
             ''2025-01-01T10:02:00.000Z'' ''T1'' ''U7'' ''City Hospital'' 32 78 routeA routeB
             pendingWorld)) ''T1'' = Some t' \<and>
      selected_route t' = Some routeA \<and> route_type t' = Some fastest \<and>
      route_distance_meters t' = Some 3500 \<and> route_duration_seconds t' = Some 420) \<and>
   (\<exists>t. fst (createHospitalEmergency hospitalUser Applied Applied ''2025-01-01T10:10:00.000Z'' generatedT2
          ''A1'' 30 76 31 77 None ''U7'' ''City Hospital'' 32 78 routeA routeB None None pendingWorld)
        = Some t \<and>
      selected_route t = Some routeA \<and> route_type t = Some fastest \<and>
      route_distance_meters t = Some 3500 \<and> route_duration_seconds t = Some 420)"
proof -
  let ?now = "''2025-01-01T10:02:00.000Z''" and ?now2 = "''2025-01-01T10:10:00.000Z''"
  let ?a = "assignHospitalWithRoutes hospitalUser Applied ?now ''T1'' ''U7''
       ''City Hospital'' 32 78 routeA routeB pendingWorld"
  let ?c = "createHospitalEmergency hospitalUser Applied Applied ?now2 generatedT2
          ''A1'' 30 76 31 77 None ''U7'' ''City Hospital'' 32 78 routeA routeB None None pendingWorld"
  have a: "?a = (True, snd ?a)"
    by (simp add: assignHospitalWithRoutes_Applied [OF hospitalUser_simps(1) pendingWorld_T1])
  have c: "?c = (Some (insertData hospitalUser ?now2 generatedT2 ''A1'' 30 76 31 77 None ''U7''
                   ''City Hospital'' 32 78 routeA routeB None None), snd ?c)"
    by (simp add: createHospitalEmergency_Applied [OF hospitalUser_simps(2) pendingWorld_T2])
  have fc: "fst ?c = Some (insertData hospitalUser ?now2 generatedT2 ''A1'' 30 76 31 77 None ''U7''
                   ''City Hospital'' 32 78 routeA routeB None None)"
    by (simp add: createHospitalEmergency_Applied [OF hospitalUser_simps(2) pendingWorld_T2])
  have w1: "\<exists>t'. emergency_tokens (snd ?a) ''T1'' = Some t' \<and>
      selected_route t' = Some routeA \<and> route_type t' = Some fastest \<and>
      route_distance_meters t' = Some 3500 \<and> route_duration_seconds t' = Some 420"
    using legacy_route_fields [THEN conjunct1, rule_format, OF a]
    by (simp add: routeA_simps routeB_simps)
  have w2: "\<exists>t. fst ?c = Some t \<and>
      selected_route t = Some routeA \<and> route_type t = Some fastest \<and>
      route_distance_meters t = Some 3500 \<and> route_duration_seconds t = Some 420"
    using legacy_route_fields [THEN conjunct2, rule_format, OF c] fc
    by (simp add: routeA_simps routeB_simps)
  from a w1 w2 show ?thesis by blast
qed




lemma isUuid_example: "isUuid ''123e4567-e89b-42d3-a456-426614174000''"
  by (simp add: isUuid_def isHexDigit_def)

lemma isUuid_example2: "\<not> isUuid ''123e4567-e89b-62d3-a456-426614174000''"
  by (simp add: isUuid_def isHexDigit_def)

section \<open>Theorems: capacity simulator\<close>

lemma floor_fraction_bounds:
  assumes "0 \<le> T" "0 \<le> f" "f \<le> 1"
  shows "0 \<le> \<lfloor>real_of_int T * f\<rfloor> \<and> \<lfloor>real_of_int T * f\<rfloor> \<le> T"
proof -
  have a: "0 \<le> real_of_int T * f" using assms by simp
  have "real_of_int T * f \<le> real_of_int T * 1"
    using assms by (intro mult_left_mono) simp_all
  then have b: "real_of_int T * f \<le> real_of_int T" by simp
  have "\<lfloor>real_of_int T * f\<rfloor> \<le> \<lfloor>real_of_int T\<rfloor>" using b by (rule floor_mono)
  then show ?thesis using a by simp
qed

lemma initial_sizes:
  assumes "0 \<le> r" "0 \<le> (k::real)"
  shows "0 \<le> \<lfloor>r * k\<rfloor>"
  using assms by simp

lemma initialCapacity_bounds:
  assumes "valid_init d"
  shows "capacity_bounds (initialCapacity d hospitalName)"
proof -
  obtain T I where ti: "(case getHospitalType hospitalName of
               government \<Rightarrow> (\<lfloor>draw_total d * 100\<rfloor> + 200, \<lfloor>draw_icu d * 20\<rfloor> + 30)
             | private_super \<Rightarrow> (\<lfloor>draw_total d * 150\<rfloor> + 150, \<lfloor>draw_icu d * 25\<rfloor> + 25)
             | private_t \<Rightarrow> (\<lfloor>draw_total d * 80\<rfloor> + 50, \<lfloor>draw_icu d * 15\<rfloor> + 10)) = (T, I)"
    by fastforce
  from assms have u: "0 \<le> draw_total d" "0 \<le> draw_icu d" "0 \<le> draw_occupied d" "draw_occupied d < 1"
    "0 \<le> draw_occupied_icu d" "draw_occupied_icu d < 1" "0 \<le> draw_incoming_count d"
    by (simp_all add: valid_init_def unit_draw_def)
  have T: "0 \<le> T" and I: "0 \<le> I"
    using ti u(1,2) by (cases "getHospitalType hospitalName"; simp; linarith)+
  have fb: "0 \<le> 0.4 + draw_occupied d * 0.4" "0.4 + draw_occupied d * 0.4 \<le> 1"
    using u(3,4) by simp_all
  have fi: "0 \<le> 0.3 + draw_occupied_icu d * 0.5" "0.3 + draw_occupied_icu d * 0.5 \<le> 1"
    using u(5,6) by simp_all
  note ob = floor_fraction_bounds [OF T fb]
  note oi = floor_fraction_bounds [OF I fi]
  have inc: "0 \<le> \<lfloor>draw_incoming_count d * 3\<rfloor> + 1" using u(7) by simp
  show ?thesis
    using ob oi inc
    by (simp add: initialCapacity_def ti capacity_bounds_def Let_def)
qed

lemma updatedCapacity_bounds:
  assumes "0 \<le> total_beds c" "0 \<le> icu_beds c"
  shows "capacity_bounds (updatedCapacity d c)"
  using assms by (simp add: updatedCapacity_def capacity_bounds_def Let_def)

lemma updatedCapacity_preserves:
  "capacity_bounds c \<Longrightarrow> capacity_bounds (updatedCapacity d c)"
  by (rule updatedCapacity_bounds) (simp_all add: capacity_bounds_def)

lemma Map_set_bounded:
  "all_bounded m \<Longrightarrow> capacity_bounds v \<Longrightarrow> all_bounded (Map_set k v m)"
  unfolding all_bounded_def by (induction k v m rule: Map_set.induct) auto

lemma map_of_bounded:
  "all_bounded m \<Longrightarrow> map_of m k = Some c \<Longrightarrow> capacity_bounds c"
  unfolding all_bounded_def by (auto simp: list_all_iff dest: map_of_SomeD)

lemma updateHospitalCapacity_bounded:
  "all_bounded m \<Longrightarrow> all_bounded (updateHospitalCapacity d k m)"
  by (auto simp: updateHospitalCapacity_def split: option.splits
      intro: Map_set_bounded updatedCapacity_preserves map_of_bounded)

lemma tick_fold_bounded:
  "all_bounded m \<Longrightarrow>
   all_bounded (foldl (\<lambda>m hospitalId. updateHospitalCapacity (draws hospitalId) hospitalId m) m ks)"
  by (induction ks arbitrary: m) (simp_all add: updateHospitalCapacity_bounded)

lemma simulationTick_bounded: "all_bounded m \<Longrightarrow> all_bounded (simulationTick draws m)"
  unfolding simulationTick_def by (rule tick_fold_bounded)

lemma getCapacity_bounded:
  assumes "all_bounded m" "valid_init d"
  shows "all_bounded (snd (getCapacity d k n m)) \<and> capacity_bounds (fst (getCapacity d k n m))"
proof (cases "map_of m k")
  case None
  then show ?thesis
    using assms initialCapacity_bounds [OF assms(2), of n]
    by (simp add: getCapacity_def initializeHospitalCapacity_def Let_def Map_set_bounded)
next
  case (Some c)
  then show ?thesis
    using assms map_of_bounded [OF assms(1) Some] by (simp add: getCapacity_def)
qed

lemma engineStep_bounded:
  "all_bounded m \<Longrightarrow> valid_event e \<Longrightarrow> all_bounded (engineStep m e)"
  by (cases e) (simp_all add: getCapacity_bounded simulationTick_bounded)

lemma engine_fold_bounded:
  "all_bounded m \<Longrightarrow> list_all valid_event events \<Longrightarrow> all_bounded (foldl engineStep m events)"
  by (induction events arbitrary: m) (simp_all add: engineStep_bounded)

text \<open>
  C8. Start an engine with an empty \<open>capacityMap\<close> and let any sequence of \<open>getCapacity\<close>
  calls and timer ticks happen, the draws of every initialisation lying in \<open>[0, 1)\<close>
  (the draws of the ticks may be anything: their effect is clamped). Then every record of
  the map satisfies \<open>0 \<le> available_beds \<le> total_beds\<close>, \<open>0 \<le> icu_available \<le> icu_beds\<close>
  and \<open>incoming_ambulances \<ge> 0\<close>, and its \<open>occupied_beds\<close> is
  \<open>total_beds - available_beds\<close>.
\<close>

theorem capacity_bounds_invariant:
  assumes "list_all valid_event events" and "(hospitalId, c) \<in> set (engineRun events)"
  shows "0 \<le> available_beds c \<and> available_beds c \<le> total_beds c \<and>
         0 \<le> icu_available c \<and> icu_available c \<le> icu_beds c \<and>
         0 \<le> incoming_ambulances c \<and>
         occupied_beds c = total_beds c - available_beds c"
proof -
  have e: "all_bounded []" by (simp add: all_bounded_def)
  have "all_bounded (engineRun events)"
    unfolding engineRun_def by (rule engine_fold_bounded [OF e assms(1)])
  with assms(2) have "capacity_bounds c"
    by (auto simp: all_bounded_def list_all_iff)
  then show ?thesis by (simp add: capacity_bounds_def)
qed

text \<open>One initialisation of a government hospital and one tick.\<close>

lemma engineRun_example:
  "engineRun [GetCapacity ''h1'' ''Civil Hospital'' exampleInit, Tick (\<lambda>_. exampleTick)] =
    [(''h1'', \<lparr>total_beds = 250, available_beds = 103, icu_beds = 40, icu_available = 19,
       occupied_beds = 147, incoming_ambulances = 0, occupancy_percentage = Some 59\<rparr>)]"
  by code_simp

lemma exampleInit_valid: "valid_init exampleInit"
  by (simp add: valid_init_def unit_draw_def exampleInit_def)

text \<open>The theorem at that run: the record after the tick is within its bounds.\<close>

theorem capacity_bounds_invariant_witness:
  "list_all valid_event [GetCapacity ''h1'' ''Civil Hospital'' exampleInit, Tick (\<lambda>_. exampleTick)] \<and>
   engineRun [GetCapacity ''h1'' ''Civil Hospital'' exampleInit, Tick (\<lambda>_. exampleTick)] =
    [(''h1'', \<lparr>total_beds = 250, available_beds = 103, icu_beds = 40, icu_available = 19,
       occupied_beds = 147, incoming_ambulances = 0, occupancy_percentage = Some 59\<rparr>)] \<and>
   (0::int) \<le> 103 \<and> (103::int) \<le> 250 \<and> (0::int) \<le> 19 \<and> (19::int) \<le> 40 \<and> (147::int) = 250 - 103"
proof -
  have v: "list_all valid_event [GetCapacity ''h1'' ''Civil Hospital'' exampleInit, Tick (\<lambda>_. exampleTick)]"
    by (simp add: exampleInit_valid)
  have m: "(''h1'', \<lparr>total_beds = 250, available_beds = 103, icu_beds = 40, icu_available = 19,
       occupied_beds = 147, incoming_ambulances = 0, occupancy_percentage = Some 59\<rparr>)
     \<in> set (engineRun [GetCapacity ''h1'' ''Civil Hospital'' exampleInit, Tick (\<lambda>_. exampleTick)])"
    by (simp add: engineRun_example)
  from capacity_bounds_invariant [OF v m] v engineRun_example show ?thesis by simp
qed

end
